theory Spec2Isabelle
  imports Complex_Main
begin

section \<open>Python values used by \<^verbatim>\<open>scripts/push-hz-prices.py\<close>\<close>

subsection \<open>Floats\<close>

text \<open>
  A Python \<^verbatim>\<open>float\<close> is an IEEE 754 binary64 number. A finite one is kept as the rational
  it denotes; the two infinities and NaN are separate values. The two zeros are one value
  \<open>Finite 0\<close>: the script never observes the sign of a zero (it only compares, and
  Python raises on every division by a zero of either sign).
\<close>

datatype pyfloat = Finite rat | PosInf | NegInf | NaN

text \<open>The number of binary digits of a positive integer (Python's \<^verbatim>\<open>int.bit_length\<close>).\<close>

function bit_length :: "int \<Rightarrow> int" where
  "bit_length n = (if n \<le> 0 then 0 else 1 + bit_length (n div 2))"
  by pat_completeness auto
termination
  by (relation "measure nat") auto

declare bit_length.simps [simp del]

definition pow2 :: "int \<Rightarrow> rat" where
  "pow2 e = (if 0 \<le> e then 2 ^ nat e else 1 / 2 ^ nat (- e))"

text \<open>
  \<open>ilog2 x\<close> is the binary exponent of a positive rational: \<open>2^e \<le> x < 2^(e+1)\<close>.
  With \<open>x = p / q\<close> in lowest terms the difference of the bit lengths is \<open>e\<close> or
  \<open>e + 1\<close>.
\<close>

definition ilog2 :: "rat \<Rightarrow> int" where
  "ilog2 x =
     (let (p, q) = quotient_of x;
          e = bit_length p - bit_length q
      in if pow2 e \<le> x then e else e - 1)"

definition round_half_even :: "rat \<Rightarrow> int" where
  "round_half_even m =
     (let f = \<lfloor>m\<rfloor>; r = m - of_int f
      in if r < 1 / 2 then f else if 1 / 2 < r then f + 1
         else if even f then f else f + 1)"

text \<open>
  Rounding to the nearest binary64 number, ties to even: 53 significant bits down to the
  exponent \<open>-1022\<close>, multiples of \<open>2^-1074\<close> below (subnormals), and an infinity when the
  rounded magnitude reaches \<open>2^1024\<close>. Every arithmetic operation of the script is the
  exact operation followed by this rounding.
\<close>

definition round_double :: "rat \<Rightarrow> pyfloat" where
  "round_double x =
     (if x = 0 then Finite 0
      else let e = ilog2 \<bar>x\<bar>;
               q = max (e - 52) (- 1074);
               n = round_half_even (x / pow2 q)
           in if 1024 \<le> e \<or> (e = 1023 \<and> \<bar>n\<bar> = 9007199254740992)
              then (if 0 < x then PosInf else NegInf)
              else Finite (of_int n * pow2 q))"

subsection \<open>JSON documents\<close>

text \<open>
  What \<^verbatim>\<open>json.loads\<close> returns: \<open>JNull\<close> is Python's \<^verbatim>\<open>None\<close>, an object is
  its members in document order.
\<close>

datatype json =
    JNull
  | JBool bool
  | JInt int
  | JFloat pyfloat
  | JStr string
  | JList "json list"
  | JObj "(string \<times> json) list"

text \<open>Python's truth value of a parsed document (\<^verbatim>\<open>x or y\<close>, \<^verbatim>\<open>if x\<close>).\<close>

fun truthy :: "json \<Rightarrow> bool" where
  "truthy JNull = False"
| "truthy (JBool b) = b"
| "truthy (JInt i) = (i \<noteq> 0)"
| "truthy (JFloat x) = (x \<noteq> Finite 0)"
| "truthy (JStr s) = (s \<noteq> [])"
| "truthy (JList xs) = (xs \<noteq> [])"
| "truthy (JObj kvs) = (kvs \<noteq> [])"

text \<open>
  A Python dict built from a sequence of key/value pairs keeps, for a key that occurs
  more than once, the last value.
\<close>

definition dict_of :: "('k \<times> 'v) list \<Rightarrow> 'k \<rightharpoonup> 'v" where
  "dict_of kvs = map_of (rev kvs)"

fun is_dict :: "json \<Rightarrow> bool" where
  "is_dict (JObj kvs) = True"
| "is_dict _ = False"

subsection \<open>Requests, responses and exceptions\<close>

text \<open>
  The paths the script requests from Coroot. \<open>ApiProjectOverview c\<close> is
  \<^verbatim>\<open>f"/api/project/{candidate}/overview"\<close> and \<open>ApiCustomCloudPricing p\<close> is
  \<^verbatim>\<open>f"/api/project/{COROOT_PROJECT}/custom_cloud_pricing"\<close>, with the interpolated value
  as the argument.
\<close>

datatype path =
    ApiLogin
  | ApiProjects
  | ApiProjectOverview string
  | ApiCustomCloudPricing json

record request =
  req_method :: string
  req_path :: path
  req_body :: "json option"

text \<open>
  What \<^verbatim>\<open>_opener.open\<close>, \<^verbatim>\<open>resp.read()\<close> and \<^verbatim>\<open>json.loads\<close> can do, seen
  from \<^verbatim>\<open>coroot_request\<close>:
  \<^item> \<open>HttpError code text\<close>: urllib raises \<^verbatim>\<open>HTTPError\<close>, as it does for a status outside
    2xx; \<open>text\<close> is the decoded and stripped error body;
  \<^item> \<open>NoBody\<close>: a 2xx answer with a blank body (\<^verbatim>\<open>raw.strip()\<close> is empty);
  \<^item> \<open>JsonBody j\<close>: a 2xx answer with a body that \<^verbatim>\<open>json.loads\<close> parses, to \<open>j\<close>;
  \<^item> \<open>NestedTooDeep\<close>: a 2xx answer with a body nested deeper than the parser can
    follow (how deep that is depends on the interpreter): \<^verbatim>\<open>json.loads\<close> raises
    \<^verbatim>\<open>RecursionError\<close>, a subclass of \<^verbatim>\<open>RuntimeError\<close>;
  \<^item> \<open>BadBody\<close>: a 2xx answer with a body that is not JSON: \<^verbatim>\<open>json.loads\<close> raises
    \<^verbatim>\<open>JSONDecodeError\<close>;
  \<^item> \<open>Undecodable\<close>: a 2xx answer with bytes that are not text in the encoding
    \<^verbatim>\<open>json.loads\<close> detects: it raises \<^verbatim>\<open>UnicodeDecodeError\<close>;
  \<^item> \<open>NetError\<close>: every other exception of \<^verbatim>\<open>_opener.open\<close> or \<^verbatim>\<open>resp.read()\<close>:
    \<^verbatim>\<open>URLError\<close>, a timeout, an exception of \<^verbatim>\<open>http.client\<close> (\<^verbatim>\<open>InvalidURL\<close> for a
    path with a space in it, among others). None of them is a \<^verbatim>\<open>RuntimeError\<close>; all
    stand here as \<open>URLError\<close>.
\<close>

datatype response =
    HttpError nat string
  | NoBody
  | JsonBody json
  | NestedTooDeep
  | BadBody
  | Undecodable
  | NetError

datatype exn =
    SystemExit string
  | AssertionError
  | ZeroDivisionError
  | OverflowError
  | RuntimeError nat string path string
  | RecursionError
  | JSONDecodeError
  | UnicodeDecodeError
  | URLError
  | HTTPError nat
  | KeyError
  | ValueError string
  | AttributeError

text \<open>
  \<^verbatim>\<open>except RuntimeError\<close> catches the class and its subclasses: of the exceptions
  above, \<open>RuntimeError\<close> and \<open>RecursionError\<close>. (\<^verbatim>\<open>except Exception\<close> catches every
  one of them but \<open>SystemExit\<close>, which the \<^verbatim>\<open>try\<close> of the script never raises.)
\<close>

fun is_RuntimeError :: "exn \<Rightarrow> bool" where
  "is_RuntimeError (RuntimeError code method path text) = True"
| "is_RuntimeError RecursionError = True"
| "is_RuntimeError _ = False"

text \<open>
  Coroot, as the script meets it: the answer to a request may depend on the requests the
  session has sent before (the cookie jar carries the login).
\<close>

type_synonym coroot = "request list \<Rightarrow> request \<Rightarrow> response"

section \<open>Float arithmetic\<close>

fun fneg :: "pyfloat \<Rightarrow> pyfloat" where
  "fneg (Finite a) = Finite (- a)"
| "fneg PosInf = NegInf"
| "fneg NegInf = PosInf"
| "fneg NaN = NaN"

fun fadd :: "pyfloat \<Rightarrow> pyfloat \<Rightarrow> pyfloat" where
  "fadd (Finite a) (Finite b) = round_double (a + b)"
| "fadd (Finite a) PosInf = PosInf"
| "fadd (Finite a) NegInf = NegInf"
| "fadd PosInf (Finite b) = PosInf"
| "fadd PosInf PosInf = PosInf"
| "fadd PosInf NegInf = NaN"
| "fadd NegInf (Finite b) = NegInf"
| "fadd NegInf NegInf = NegInf"
| "fadd NegInf PosInf = NaN"
| "fadd NaN y = NaN"
| "fadd x NaN = NaN"

definition fsub :: "pyfloat \<Rightarrow> pyfloat \<Rightarrow> pyfloat" where
  "fsub x y = fadd x (fneg y)"

definition signed_inf :: "bool \<Rightarrow> pyfloat" where
  "signed_inf positive = (if positive then PosInf else NegInf)"

fun fmul :: "pyfloat \<Rightarrow> pyfloat \<Rightarrow> pyfloat" where
  "fmul (Finite a) (Finite b) = round_double (a * b)"
| "fmul (Finite a) PosInf = (if a = 0 then NaN else signed_inf (0 < a))"
| "fmul (Finite a) NegInf = (if a = 0 then NaN else signed_inf (a < 0))"
| "fmul PosInf (Finite b) = (if b = 0 then NaN else signed_inf (0 < b))"
| "fmul NegInf (Finite b) = (if b = 0 then NaN else signed_inf (b < 0))"
| "fmul PosInf PosInf = PosInf"
| "fmul PosInf NegInf = NegInf"
| "fmul NegInf PosInf = NegInf"
| "fmul NegInf NegInf = PosInf"
| "fmul NaN y = NaN"
| "fmul x NaN = NaN"

text \<open>The quotient by a divisor other than zero.\<close>

fun fquot :: "pyfloat \<Rightarrow> pyfloat \<Rightarrow> pyfloat" where
  "fquot (Finite a) (Finite b) = round_double (a / b)"
| "fquot (Finite a) PosInf = Finite 0"
| "fquot (Finite a) NegInf = Finite 0"
| "fquot PosInf (Finite b) = signed_inf (0 < b)"
| "fquot NegInf (Finite b) = signed_inf (b < 0)"
| "fquot PosInf PosInf = NaN"
| "fquot PosInf NegInf = NaN"
| "fquot NegInf PosInf = NaN"
| "fquot NegInf NegInf = NaN"
| "fquot NaN y = NaN"
| "fquot x NaN = NaN"

text \<open>Python's \<^verbatim>\<open>x / y\<close> on floats raises on a zero divisor, whatever \<open>x\<close> is.\<close>

definition truediv :: "pyfloat \<Rightarrow> pyfloat \<Rightarrow> exn + pyfloat" where
  "truediv x y = (if y = Finite 0 then Inl ZeroDivisionError else Inr (fquot x y))"

fun fabs :: "pyfloat \<Rightarrow> pyfloat" where
  "fabs (Finite a) = Finite \<bar>a\<bar>"
| "fabs PosInf = PosInf"
| "fabs NegInf = PosInf"
| "fabs NaN = NaN"

text \<open>\<^verbatim>\<open>x < y\<close>: false as soon as one side is NaN.\<close>

fun flt :: "pyfloat \<Rightarrow> pyfloat \<Rightarrow> bool" where
  "flt (Finite a) (Finite b) = (a < b)"
| "flt (Finite a) PosInf = True"
| "flt (Finite a) NegInf = False"
| "flt NegInf (Finite b) = True"
| "flt NegInf PosInf = True"
| "flt NegInf NegInf = False"
| "flt PosInf y = False"
| "flt NaN y = False"
| "flt x NaN = False"

text \<open>
  An \<^verbatim>\<open>int\<close> operand of a float operation is converted first, correctly rounded;
  Python raises \<^verbatim>\<open>OverflowError\<close> when the integer is beyond the float range.
\<close>

definition float_of_int :: "int \<Rightarrow> exn + pyfloat" where
  "float_of_int i =
     (case round_double (of_int i) of
        Finite y \<Rightarrow> Inr (Finite y)
      | _ \<Rightarrow> Inl OverflowError)"

section \<open>Configuration\<close>

text \<open>
  \<^verbatim>\<open>CPU_MEMORY_RATIO = 0.03465 / 0.003938\<close>: both literals are the nearest floats, and
  so is the quotient. \<open>tolerance\<close> is the literal \<^verbatim>\<open>1e-9\<close> of the assertion.
\<close>

definition CPU_MEMORY_RATIO :: pyfloat where
  "CPU_MEMORY_RATIO = fquot (round_double (3465 / 100000)) (round_double (3938 / 1000000))"

definition tolerance :: pyfloat where
  "tolerance = round_double (1 / 1000000000)"

text \<open>
  The environment after the start-up check (lines 30 to 39): the credentials are set;
  \<open>COROOT_PROJECT\<close> is the empty string when the variable is unset.
\<close>

record config =
  COROOT_EMAIL :: string
  COROOT_PASSWORD :: string
  COROOT_PROJECT :: string

section \<open>1. Fetch Hetzner pricing\<close>

text \<open>
  The two documents of the Hetzner API, with the fields the script reads.
  \<open>p_hourly\<close> and \<open>p_monthly\<close> are \<^verbatim>\<open>float(p["price_hourly"]["net"])\<close> and
  \<^verbatim>\<open>float(p["price_monthly"]["net"])\<close>; \<open>srv_memory\<close> is the JSON number
  \<^verbatim>\<open>server["server_type"]["memory"]\<close> as the float the addition to
  \<^verbatim>\<open>total_ram_gb\<close> makes of it.
\<close>

record price_entry =
  p_location :: string
  p_hourly :: pyfloat
  p_monthly :: pyfloat

record server_type =
  st_name :: string
  st_prices :: "price_entry list"

record server =
  srv_name :: string
  srv_type :: string
  srv_cores :: int
  srv_memory :: pyfloat
  srv_location :: string

record prices =
  hourly :: pyfloat
  monthly :: pyfloat

text \<open>
  What the two calls of \<^verbatim>\<open>hetzner_get\<close> give: the document, or the exception that
  \<^verbatim>\<open>urlopen\<close>, \<^verbatim>\<open>json.loads\<close> or the subscript raised.
\<close>

record hetzner =
  pricing_response :: "exn + server_type list"
  servers_response :: "exn + server list"

type_synonym price_table = "string \<rightharpoonup> (string \<rightharpoonup> prices)"

definition price_lookup :: "server_type list \<Rightarrow> price_table" where
  "price_lookup pricing =
     dict_of (map (\<lambda>st. (st_name st,
                dict_of (map (\<lambda>p. (p_location p, \<lparr>hourly = p_hourly p, monthly = p_monthly p\<rparr>))
                             (st_prices st))))
              pricing)"

definition fetch :: "hetzner \<Rightarrow> exn + price_table \<times> server list" where
  "fetch h =
     (case pricing_response h of
        Inl e \<Rightarrow> Inl e
      | Inr pricing \<Rightarrow>
          (case servers_response h of
             Inl e \<Rightarrow> Inl e
           | Inr servers \<Rightarrow>
               if servers = [] then Inl (SystemExit ''error: no active servers found in Hetzner account'')
               else Inr (price_lookup pricing, servers)))"

section \<open>2. Aggregate cost and resources\<close>

record fleet_totals =
  total_hourly :: pyfloat
  total_vcpus :: int
  total_ram_gb :: pyfloat

text \<open>\<^verbatim>\<open>price_lookup.get(stype, {}).get(location)\<close>\<close>

definition find_prices :: "price_table \<Rightarrow> server \<Rightarrow> prices option" where
  "find_prices table s =
     (case table (srv_type s) of
        None \<Rightarrow> None
      | Some by_location \<Rightarrow> by_location (srv_location s))"

definition add_server :: "prices \<Rightarrow> server \<Rightarrow> fleet_totals \<Rightarrow> fleet_totals" where
  "add_server pr s t =
     \<lparr>total_hourly = fadd (total_hourly t) (hourly pr),
      total_vcpus = total_vcpus t + srv_cores s,
      total_ram_gb = fadd (total_ram_gb t) (srv_memory s)\<rparr>"

text \<open>The \<^verbatim>\<open>for server in servers\<close> loop, the three totals as the accumulator.\<close>

fun aggregate_loop :: "price_table \<Rightarrow> server list \<Rightarrow> fleet_totals \<Rightarrow> fleet_totals" where
  "aggregate_loop table [] t = t"
| "aggregate_loop table (s # servers) t =
     (case find_prices table s of
        None \<Rightarrow> aggregate_loop table servers t
      | Some pr \<Rightarrow> aggregate_loop table servers (add_server pr s t))"

definition zero_totals :: fleet_totals where
  "zero_totals = \<lparr>total_hourly = Finite 0, total_vcpus = 0, total_ram_gb = Finite 0\<rparr>"

definition aggregate :: "price_table \<Rightarrow> server list \<Rightarrow> exn + fleet_totals" where
  "aggregate table servers =
     (let t = aggregate_loop table servers zero_totals
      in if total_vcpus t = 0
         then Inl (SystemExit ''error: could not resolve pricing for any active server'')
         else Inr t)"

section \<open>3. Derive per-CPU and per-memory rates\<close>

record derived_rates =
  per_cpu_core :: pyfloat
  per_memory_gb :: pyfloat

text \<open>
  The left-hand side of the assertion,
  \<^verbatim>\<open>abs(per_cpu * total_vcpus + per_memory * total_ram_gb - total_hourly)\<close>, with
  \<open>c\<close> the float of \<^verbatim>\<open>total_vcpus\<close>. The script runs as its first line says,
  \<^verbatim>\<open>python3\<close> without \<^verbatim>\<open>-O\<close>, so the assertion is executed.
\<close>

definition reconstruction_error :: "pyfloat \<Rightarrow> pyfloat \<Rightarrow> pyfloat \<Rightarrow> pyfloat \<Rightarrow> pyfloat \<Rightarrow> pyfloat" where
  "reconstruction_error per_cpu per_memory c ram h =
     fabs (fsub (fadd (fmul per_cpu c) (fmul per_memory ram)) h)"

definition derive_rates :: "fleet_totals \<Rightarrow> exn + derived_rates" where
  "derive_rates t =
     (case float_of_int (total_vcpus t) of
        Inl e \<Rightarrow> Inl e
      | Inr c \<Rightarrow>
          (case truediv (total_hourly t) (fadd (fmul CPU_MEMORY_RATIO c) (total_ram_gb t)) of
             Inl e \<Rightarrow> Inl e
           | Inr per_memory \<Rightarrow>
               (let per_cpu = fmul CPU_MEMORY_RATIO per_memory
                in if flt (reconstruction_error per_cpu per_memory c (total_ram_gb t) (total_hourly t))
                          tolerance
                   then Inr \<lparr>per_cpu_core = per_cpu, per_memory_gb = per_memory\<rparr>
                   else Inl AssertionError)))"

section \<open>Coroot session\<close>

text \<open>
  \<^verbatim>\<open>coroot_request\<close>. The state is the list of requests handed to urllib so far; the
  result is the parsed body (\<open>JNull\<close>, Python's \<^verbatim>\<open>None\<close>, for a blank one) or the
  exception raised.
\<close>

definition coroot_request ::
  "coroot \<Rightarrow> request list \<Rightarrow> string \<Rightarrow> path \<Rightarrow> json option \<Rightarrow> request list \<times> (exn + json)" where
  "coroot_request srv sent method path body =
     (let req = \<lparr>req_method = method, req_path = path, req_body = body\<rparr>
      in (sent @ [req],
          case srv sent req of
            HttpError code text \<Rightarrow> Inl (RuntimeError code method path text)
          | NoBody \<Rightarrow> Inr JNull
          | JsonBody j \<Rightarrow> Inr j
          | NestedTooDeep \<Rightarrow> Inl RecursionError
          | BadBody \<Rightarrow> Inl JSONDecodeError
          | Undecodable \<Rightarrow> Inl UnicodeDecodeError
          | NetError \<Rightarrow> Inl URLError))"

subsection \<open>4. Authenticate to Coroot\<close>

definition login_body :: "config \<Rightarrow> json" where
  "login_body cfg =
     JObj [(''email'', JStr (COROOT_EMAIL cfg)), (''password'', JStr (COROOT_PASSWORD cfg))]"

definition authenticate :: "config \<Rightarrow> coroot \<Rightarrow> request list \<Rightarrow> request list \<times> (exn + json)" where
  "authenticate cfg srv sent = coroot_request srv sent ''POST'' ApiLogin (Some (login_body cfg))"

subsection \<open>5. Discover project name\<close>

text \<open>\<^verbatim>\<open>d.get(key)\<close> and \<^verbatim>\<open>d.get(key, default)\<close> on a parsed JSON object.\<close>

definition dict_get :: "(string \<times> json) list \<Rightarrow> string \<Rightarrow> json \<Rightarrow> json" where
  "dict_get kvs key dflt = (case dict_of kvs key of None \<Rightarrow> dflt | Some v \<Rightarrow> v)"

text \<open>
  The body of the \<^verbatim>\<open>try\<close> after the request: the value assigned to
  \<^verbatim>\<open>COROOT_PROJECT\<close>, or the exception that reaches \<^verbatim>\<open>except Exception\<close>.
  \<^verbatim>\<open>.get\<close> exists on a dict only, so the first entry, and in the
  \<^verbatim>\<open>print\<close> of the found projects every entry, raises \<^verbatim>\<open>AttributeError\<close> when
  it is not an object.
\<close>

definition select_project :: "json \<Rightarrow> exn + json" where
  "select_project answer =
     (let projects = (if truthy answer then answer else JList [])
      in case projects of
           JList (first # others) \<Rightarrow>
             (case first of
                JObj kvs \<Rightarrow>
                  (let name = dict_get kvs ''name'' JNull;
                       project = (if truthy name then name else dict_get kvs ''id'' (JStr ''default''))
                   in if list_all is_dict (first # others) then Inr project
                      else Inl AttributeError)
              | _ \<Rightarrow> Inl AttributeError)
         | _ \<Rightarrow> Inl (ValueError ''empty projects list''))"

definition list_projects :: "coroot \<Rightarrow> request list \<Rightarrow> request list \<times> (exn + json)" where
  "list_projects srv sent =
     (case coroot_request srv sent ''GET'' ApiProjects None of
        (sent', Inl e) \<Rightarrow> (sent', Inl e)
      | (sent', Inr answer) \<Rightarrow> (sent', select_project answer))"

definition discovery_failed :: exn where
  "discovery_failed =
     SystemExit ''error: could not auto-discover project name. Set COROOT_PROJECT env var explicitly.''"

text \<open>
  \<^verbatim>\<open>for candidate in ("default",): ... else: sys.exit(...)\<close>. Only
  \<^verbatim>\<open>RuntimeError\<close> (with its subclasses) is caught inside the loop; any other exception
  of the request leaves the script.
\<close>

fun probe_overview :: "coroot \<Rightarrow> request list \<Rightarrow> string list \<Rightarrow> request list \<times> (exn + json)" where
  "probe_overview srv sent [] = (sent, Inl discovery_failed)"
| "probe_overview srv sent (candidate # candidates) =
     (case coroot_request srv sent ''GET'' (ApiProjectOverview candidate) None of
        (sent', Inr resp) \<Rightarrow>
          if resp \<noteq> JNull then (sent', Inr (JStr candidate))
          else probe_overview srv sent' candidates
      | (sent', Inl e) \<Rightarrow>
          if is_RuntimeError e then probe_overview srv sent' candidates
          else (sent', Inl e))"

definition discover_project :: "coroot \<Rightarrow> request list \<Rightarrow> request list \<times> (exn + json)" where
  "discover_project srv sent =
     (case list_projects srv sent of
        (sent', Inr project) \<Rightarrow> (sent', Inr project)
      | (sent', Inl e) \<Rightarrow> probe_overview srv sent' [''default''])"

definition resolve_project :: "config \<Rightarrow> coroot \<Rightarrow> request list \<Rightarrow> request list \<times> (exn + json)" where
  "resolve_project cfg srv sent =
     (if COROOT_PROJECT cfg = [] then discover_project srv sent
      else (sent, Inr (JStr (COROOT_PROJECT cfg))))"

subsection \<open>6. Update Coroot custom cloud pricing\<close>

definition pricing_body :: "derived_rates \<Rightarrow> json" where
  "pricing_body rates =
     JObj [(''per_cpu_core'', JFloat (per_cpu_core rates)),
           (''per_memory_gb'', JFloat (per_memory_gb rates))]"

definition update_pricing ::
  "coroot \<Rightarrow> request list \<Rightarrow> json \<Rightarrow> derived_rates \<Rightarrow> request list \<times> (exn + json)" where
  "update_pricing srv sent project rates =
     coroot_request srv sent ''POST'' (ApiCustomCloudPricing project) (Some (pricing_body rates))"

section \<open>The script\<close>

text \<open>Sections 4 to 6: what is sent to Coroot, and how the script ends.\<close>

definition push_rates :: "config \<Rightarrow> coroot \<Rightarrow> derived_rates \<Rightarrow> request list \<times> (exn + unit)" where
  "push_rates cfg srv rates =
     (case authenticate cfg srv [] of
        (sent1, Inl e) \<Rightarrow> (sent1, Inl e)
      | (sent1, Inr _) \<Rightarrow>
          (case resolve_project cfg srv sent1 of
             (sent2, Inl e) \<Rightarrow> (sent2, Inl e)
           | (sent2, Inr project) \<Rightarrow>
               (case update_pricing srv sent2 project rates of
                  (sent3, Inl e) \<Rightarrow> (sent3, Inl e)
                | (sent3, Inr _) \<Rightarrow> (sent3, Inr ()))))"

text \<open>Sections 1 to 3: the rates, from the two Hetzner documents.\<close>

definition compute_rates :: "hetzner \<Rightarrow> exn + derived_rates" where
  "compute_rates h =
     (case fetch h of
        Inl e \<Rightarrow> Inl e
      | Inr (table, servers) \<Rightarrow>
          (case aggregate table servers of
             Inl e \<Rightarrow> Inl e
           | Inr totals \<Rightarrow> derive_rates totals))"

definition main :: "config \<Rightarrow> hetzner \<Rightarrow> coroot \<Rightarrow> request list \<times> (exn + unit)" where
  "main cfg h srv =
     (case compute_rates h of
        Inl e \<Rightarrow> ([], Inl e)
      | Inr rates \<Rightarrow> push_rates cfg srv rates)"

section \<open>Vocabulary of the specification\<close>

text \<open>
  The servers whose \<open>(type, location)\<close> has a price, the price of one of them, and the sum
  of floats as the loop forms it: from \<^verbatim>\<open>0.0\<close>, left to right.
\<close>

definition priced_servers :: "price_table \<Rightarrow> server list \<Rightarrow> server list" where
  "priced_servers table servers = filter (\<lambda>s. find_prices table s \<noteq> None) servers"

definition hourly_of :: "price_table \<Rightarrow> server \<Rightarrow> pyfloat" where
  "hourly_of table s = (case find_prices table s of None \<Rightarrow> Finite 0 | Some pr \<Rightarrow> hourly pr)"

definition float_sum :: "pyfloat list \<Rightarrow> pyfloat" where
  "float_sum xs = foldl fadd (Finite 0) xs"

text \<open>The three requests of sections 4 and 5, as \<^verbatim>\<open>coroot_request\<close> sends them.\<close>

definition login_request :: "config \<Rightarrow> request" where
  "login_request cfg =
     \<lparr>req_method = ''POST'', req_path = ApiLogin, req_body = Some (login_body cfg)\<rparr>"

definition projects_request :: request where
  "projects_request = \<lparr>req_method = ''GET'', req_path = ApiProjects, req_body = None\<rparr>"

definition overview_request :: "string \<Rightarrow> request" where
  "overview_request candidate =
     \<lparr>req_method = ''GET'', req_path = ApiProjectOverview candidate, req_body = None\<rparr>"


text \<open>
  The answers to the overview probe that give \<^verbatim>\<open>coroot_request\<close> a value other than
  \<^verbatim>\<open>None\<close>: a body that \<^verbatim>\<open>json.loads\<close> parses, to something other than
  \<^verbatim>\<open>null\<close>.
\<close>

fun probe_confirms :: "response \<Rightarrow> bool" where
  "probe_confirms (JsonBody j) = (j \<noteq> JNull)"
| "probe_confirms (HttpError code text) = False"
| "probe_confirms NoBody = False"
| "probe_confirms NestedTooDeep = False"
| "probe_confirms BadBody = False"
| "probe_confirms Undecodable = False"
| "probe_confirms NetError = False"



section \<open>Example fleet and example servers\<close>

definition example_pricing :: "server_type list" where
  "example_pricing =
     [\<lparr>st_name = ''cx42'',
       st_prices = [\<lparr>p_location = ''fsn1'', p_hourly = Finite (1 / 4), p_monthly = Finite 150\<rparr>]\<rparr>]"

definition web :: server where
  "web = \<lparr>srv_name = ''web'', srv_type = ''cx42'', srv_cores = 4, srv_memory = Finite 16,
           srv_location = ''fsn1''\<rparr>"

definition db :: server where
  "db = \<lparr>srv_name = ''db'', srv_type = ''cx42'', srv_cores = 4, srv_memory = Finite 16,
           srv_location = ''fsn1''\<rparr>"

text \<open>A server of a type that the catalogue does not list.\<close>

definition ghost :: server where
  "ghost = \<lparr>srv_name = ''ghost'', srv_type = ''cx99'', srv_cores = 2, srv_memory = Finite 4,
           srv_location = ''fsn1''\<rparr>"

definition example_hetzner :: hetzner where
  "example_hetzner =
     \<lparr>pricing_response = Inr example_pricing, servers_response = Inr [web, ghost, db]\<rparr>"

definition unpriced_hetzner :: hetzner where
  "unpriced_hetzner = \<lparr>pricing_response = Inr example_pricing, servers_response = Inr [ghost]\<rparr>"

definition empty_hetzner :: hetzner where
  "empty_hetzner = \<lparr>pricing_response = Inr example_pricing, servers_response = Inr []\<rparr>"

definition example_config :: config where
  "example_config =
     \<lparr>COROOT_EMAIL = ''admin@example.org'', COROOT_PASSWORD = ''secret'', COROOT_PROJECT = []\<rparr>"

text \<open>The totals of the scenario: 0.5 EUR/hr, 8 vCPU, 32 GB; and the rates the script derives from them.\<close>

definition scenario :: fleet_totals where
  "scenario = \<lparr>total_hourly = Finite (1 / 2), total_vcpus = 8, total_ram_gb = Finite 32\<rparr>"

definition scenario_rates :: derived_rates where
  "scenario_rates =
     \<lparr>per_cpu_core = Finite (6192203765262795 / 144115188075855872),
      per_memory_gb = Finite (5629990978956395 / 1152921504606846976)\<rparr>"

text \<open>Totals of a fleet that costs ten million an hour.\<close>

definition large_fleet :: fleet_totals where
  "large_fleet = \<lparr>total_hourly = Finite 10000000, total_vcpus = 8, total_ram_gb = Finite 64\<rparr>"

text \<open>Coroot answering 401 to the login.\<close>

definition coroot_login_401 :: coroot where
  "coroot_login_401 sent req =
     (case req_path req of ApiLogin \<Rightarrow> HttpError 401 ''Unauthorized'' | _ \<Rightarrow> NoBody)"

text \<open>Coroot listing two projects; the first has a name and an identifier.\<close>

definition coroot_listing :: coroot where
  "coroot_listing sent req =
     (case req_path req of
        ApiProjects \<Rightarrow>
          JsonBody (JList [JObj [(''id'', JStr ''p1''), (''name'', JStr ''prod'')],
                           JObj [(''id'', JStr ''p2''), (''name'', JStr ''staging'')]])
      | _ \<Rightarrow> NoBody)"



text \<open>No list endpoint (404); the overview of \<^verbatim>\<open>default\<close> answers with a document.\<close>

definition coroot_default_only :: coroot where
  "coroot_default_only sent req =
     (case req_path req of
        ApiProjects \<Rightarrow> HttpError 404 ''Not Found''
      | ApiProjectOverview c \<Rightarrow> JsonBody (JObj [(''status'', JStr ''ok'')])
      | _ \<Rightarrow> NoBody)"



text \<open>No list endpoint; the overview answers 200 with an empty body.\<close>

definition coroot_blank_overview :: coroot where
  "coroot_blank_overview sent req =
     (case req_path req of
        ApiProjects \<Rightarrow> HttpError 404 ''Not Found''
      | _ \<Rightarrow> NoBody)"


text \<open>No list endpoint; the overview answers 200 with a body nested too deep to parse.\<close>

definition coroot_deep_overview :: coroot where
  "coroot_deep_overview sent req =
     (case req_path req of
        ApiProjects \<Rightarrow> HttpError 404 ''Not Found''
      | ApiProjectOverview c \<Rightarrow> NestedTooDeep
      | _ \<Rightarrow> NoBody)"


text \<open>
  The list endpoint answers with an object that holds the list, not with the list; the
  overview answers with a document.
\<close>

definition coroot_wrapped_list :: coroot where
  "coroot_wrapped_list sent req =
     (case req_path req of
        ApiProjects \<Rightarrow> JsonBody (JObj [(''projects'', JList [JObj [(''name'', JStr ''prod'')]])])
      | ApiProjectOverview c \<Rightarrow> JsonBody (JObj [(''status'', JStr ''ok'')])
      | _ \<Rightarrow> NoBody)"



text \<open>
  One server at ten million an hour, with 8 cores and 64 GB: the fleet whose totals are
  \<open>large_fleet\<close>.
\<close>

definition large_pricing :: "server_type list" where
  "large_pricing =
     [\<lparr>st_name = ''ccx63'',
       st_prices = [\<lparr>p_location = ''fsn1'', p_hourly = Finite 10000000,
                     p_monthly = Finite 7200000000\<rparr>]\<rparr>]"

definition big :: server where
  "big = \<lparr>srv_name = ''big'', srv_type = ''ccx63'', srv_cores = 8, srv_memory = Finite 64,
           srv_location = ''fsn1''\<rparr>"

definition large_hetzner :: hetzner where
  "large_hetzner = \<lparr>pricing_response = Inr large_pricing, servers_response = Inr [big]\<rparr>"

section \<open>Evaluating float arithmetic\<close>

text \<open>Powers of two by repeated squaring, for evaluation.\<close>

lemma pow2_code [code]:
  "pow2 e =
     (if e < 0 then 1 / pow2 (- e)
      else if e = 0 then 1
      else if even e then (pow2 (e div 2))\<^sup>2
      else 2 * pow2 (e - 1))"
proof -
  have ev: "pow2 e = (pow2 (e div 2))\<^sup>2" if "0 < e" "even e"
  proof -
    from that obtain k where k: "e = 2 * k" by (auto elim: evenE)
    with that have "0 \<le> k" by simp
    then have "nat (2 * k) = nat k + nat k" by simp
    with k \<open>0 \<le> k\<close> show ?thesis
      by (simp add: pow2_def power_add power2_eq_square)
  qed
  have od: "pow2 e = 2 * pow2 (e - 1)" if "0 < e"
  proof -
    from that have "nat e = Suc (nat (e - 1))" by simp
    with that show ?thesis by (simp add: pow2_def)
  qed
  show ?thesis using ev od by (simp add: pow2_def)
qed

text \<open>The two constants: 8.798882681564246 and 1e-09 as the doubles they are.\<close>

lemma CPU_MEMORY_RATIO_value [code]:
  "CPU_MEMORY_RATIO = Finite (4953330595746181 / 562949953421312)"
  by code_simp

lemma tolerance_value [code]:
  "tolerance = Finite (4835703278458517 / 4835703278458516698824704)"
  by code_simp

text \<open>The derivation, one operation after the other.\<close>

lemma derive_rates_steps:
  assumes "float_of_int (total_vcpus t) = Inr c"
    and "fadd (fmul CPU_MEMORY_RATIO c) (total_ram_gb t) = d"
    and "d \<noteq> Finite 0"
    and "fquot (total_hourly t) d = pm"
    and "fmul CPU_MEMORY_RATIO pm = pc"
    and "reconstruction_error pc pm c (total_ram_gb t) (total_hourly t) = err"
  shows "derive_rates t =
           (if flt err tolerance then Inr \<lparr>per_cpu_core = pc, per_memory_gb = pm\<rparr>
            else Inl AssertionError)"
  using assms by (simp add: derive_rates_def truediv_def Let_def)

lemma derive_rates_scenario: "derive_rates scenario = Inr scenario_rates"
proof -
  have 1: "float_of_int (total_vcpus scenario) = Inr (Finite 8)"
    by code_simp
  have 2: "fadd (fmul CPU_MEMORY_RATIO (Finite 8)) (total_ram_gb scenario)
             = Finite (7205130409431429 / 70368744177664)"
    by code_simp
  have 3: "fquot (total_hourly scenario) (Finite (7205130409431429 / 70368744177664))
             = Finite (5629990978956395 / 1152921504606846976)"
    by code_simp
  have 4: "fmul CPU_MEMORY_RATIO (Finite (5629990978956395 / 1152921504606846976))
             = Finite (6192203765262795 / 144115188075855872)"
    by code_simp
  have 5: "reconstruction_error (Finite (6192203765262795 / 144115188075855872))
             (Finite (5629990978956395 / 1152921504606846976)) (Finite 8)
             (total_ram_gb scenario) (total_hourly scenario) = Finite 0"
    by code_simp
  have 6: "flt (Finite 0) tolerance"
    by code_simp
  show ?thesis
    using derive_rates_steps [OF 1 2 _ 3 4 5] 6 by (simp add: scenario_rates_def)
qed

lemma derive_rates_large_fleet: "derive_rates large_fleet = Inl AssertionError"
proof -
  have 1: "float_of_int (total_vcpus large_fleet) = Inr (Finite 8)"
    by code_simp
  have 2: "fadd (fmul CPU_MEMORY_RATIO (Finite 8)) (total_ram_gb large_fleet)
             = Finite (2364232555779169 / 17592186044416)"
    by code_simp
  have 3: "fquot (total_hourly large_fleet) (Finite (2364232555779169 / 17592186044416))
             = Finite (5113396381669439 / 68719476736)"
    by code_simp
  have 4: "fmul CPU_MEMORY_RATIO (Finite (5113396381669439 / 68719476736))
             = Finite (5624021858330563 / 8589934592)"
    by code_simp
  have 5: "reconstruction_error (Finite (5624021858330563 / 8589934592))
             (Finite (5113396381669439 / 68719476736)) (Finite 8)
             (total_ram_gb large_fleet) (total_hourly large_fleet) = Finite (1 / 536870912)"
    by code_simp
  have 6: "\<not> flt (Finite (1 / 536870912)) tolerance"
    by code_simp
  show ?thesis
    using derive_rates_steps [OF 1 2 _ 3 4 5] 6 by simp
qed

section \<open>Rounding error\<close>

text \<open>
  \<open>round_double\<close> returns a nearest double: below the overflow range the result is
  finite and differs from the argument by at most \<open>2^-53\<close> of its magnitude plus half the
  smallest subnormal step.
\<close>

lemma pow2_powi: "pow2 e = 2 powi e"
  by (simp add: pow2_def power_int_def field_simps)

lemma bit_length_nonneg: "0 \<le> bit_length n"
proof (induction n rule: bit_length.induct)
  case (1 n)
  then show ?case
    by (cases "n \<le> 0") (simp_all add: bit_length.simps [of n])
qed

lemma bit_length_pos: "0 < n \<Longrightarrow> 0 < bit_length n"
  using bit_length_nonneg [of "n div 2"] by (simp add: bit_length.simps [of n])

lemma bit_length_bounds:
  "0 < n \<Longrightarrow> 2 ^ (nat (bit_length n) - 1) \<le> n \<and> n < 2 ^ nat (bit_length n)"
proof (induction n rule: bit_length.induct)
  case (1 n)
  show ?case
  proof (cases "0 < n div 2")
    case False
    with 1(2) have "n = 1" by (simp add: pos_imp_zdiv_pos_iff)
    then show ?thesis by (simp add: bit_length.simps [of 1] bit_length.simps [of 0])
  next
    case True
    let ?b = "bit_length (n div 2)"
    from 1 True have ih: "2 ^ (nat ?b - 1) \<le> n div 2" "n div 2 < 2 ^ nat ?b"
      by simp_all
    from True have bpos: "0 < ?b" by (rule bit_length_pos)
    have b: "bit_length n = 1 + ?b" using 1(2) by (simp add: bit_length.simps [of n])
    from bpos have e1: "nat (1 + ?b) - 1 = nat ?b" by simp
    from bpos have e2: "nat (1 + ?b) = Suc (nat ?b)" by (simp add: nat_add_distrib)
    from bpos have e3: "(2::int) ^ nat ?b = 2 * 2 ^ (nat ?b - 1)"
      by (cases "nat ?b") simp_all
    have "2 * (n div 2) \<le> n" by simp
    moreover have "n < 2 * (n div 2) + 2" by presburger
    ultimately have "2 ^ nat ?b \<le> n" "n < 2 * 2 ^ nat ?b"
      using ih e3 by linarith+
    then show ?thesis unfolding b e1 e2 by simp
  qed
qed

lemma bit_length_bounds_rat:
  assumes "0 < n"
  shows "(2::rat) powi (bit_length n - 1) \<le> of_int n" "of_int n < (2::rat) powi (bit_length n)"
proof -
  from assms have pos: "0 < bit_length n" by (rule bit_length_pos)
  from bit_length_bounds [OF assms]
  have a: "2 ^ (nat (bit_length n) - 1) \<le> n" and b: "n < 2 ^ nat (bit_length n)" by simp_all
  from a have "(of_int (2 ^ (nat (bit_length n) - 1)) :: rat) \<le> of_int n"
    by (simp only: of_int_le_iff)
  moreover have "nat (bit_length n) - 1 = nat (bit_length n - 1)" using pos by simp
  ultimately show "(2::rat) powi (bit_length n - 1) \<le> of_int n"
    using pos by (simp add: power_int_def)
  from b have "(of_int n :: rat) < of_int (2 ^ nat (bit_length n))"
    by (simp only: of_int_less_iff)
  then show "of_int n < (2::rat) powi (bit_length n)"
    using pos by (simp add: power_int_def)
qed

lemma ilog2_bounds:
  assumes "0 < x"
  shows "pow2 (ilog2 x) \<le> x" "x < pow2 (ilog2 x + 1)"
proof -
  obtain p q where pq: "quotient_of x = (p, q)" by (cases "quotient_of x")
  then have q: "0 < q" by (rule quotient_of_denom_pos)
  from pq have x: "x = of_int p / of_int q" by (rule quotient_of_div)
  with assms q have p: "0 < p" by (simp add: zero_less_divide_iff)
  let ?e = "bit_length p - bit_length q"
  note bp = bit_length_bounds_rat [OF p] and bq = bit_length_bounds_rat [OF q]
  have qpos: "(0::rat) < of_int q" using q by simp
  have up: "x < 2 powi (?e + 1)"
  proof -
    have "x < 2 powi (bit_length p) / 2 powi (bit_length q - 1)"
      unfolding x
    proof (rule frac_less)
      show "(0::rat) \<le> of_int p" using p by simp
      show "of_int p < (2::rat) powi bit_length p" by (rule bp(2))
      show "(0::rat) < 2 powi (bit_length q - 1)" by simp
      show "(2::rat) powi (bit_length q - 1) \<le> of_int q" by (rule bq(1))
    qed
    also have "\<dots> = 2 powi (?e + 1)"
      by (simp add: power_int_diff [symmetric] algebra_simps)
    finally show ?thesis .
  qed
  have low: "2 powi (?e - 1) \<le> x"
  proof -
    have "2 powi (bit_length p - 1) / 2 powi (bit_length q) \<le> x"
      unfolding x
    proof (rule frac_le)
      show "(0::rat) \<le> of_int p" using p by simp
      show "(2::rat) powi (bit_length p - 1) \<le> of_int p" by (rule bp(1))
      show "(0::rat) < of_int q" by (rule qpos)
      show "of_int q \<le> (2::rat) powi bit_length q" using bq(2) by simp
    qed
    moreover have "2 powi (bit_length p - 1) / 2 powi (bit_length q) = (2::rat) powi (?e - 1)"
      by (simp add: power_int_diff [symmetric] algebra_simps)
    ultimately show ?thesis by simp
  qed
  have il: "ilog2 x = (if 2 powi ?e \<le> x then ?e else ?e - 1)"
    by (simp add: ilog2_def pq Let_def pow2_powi)
  show "pow2 (ilog2 x) \<le> x"
    using low by (simp add: il pow2_powi)
  show "x < pow2 (ilog2 x + 1)"
    using up by (auto simp: il pow2_powi not_le)
qed

lemma round_half_even_error: "\<bar>of_int (round_half_even m) - m\<bar> \<le> 1 / 2"
proof -
  have "of_int \<lfloor>m\<rfloor> \<le> m" "m < of_int \<lfloor>m\<rfloor> + 1" by linarith+
  then show ?thesis
    by (auto simp: round_half_even_def Let_def)
qed


lemma round_double_finite:
  assumes "x \<noteq> 0" and "\<bar>x\<bar> < pow2 1023"
  shows "round_double x =
           Finite (of_int (round_half_even (x / pow2 (max (ilog2 \<bar>x\<bar> - 52) (- 1074))))
                   * pow2 (max (ilog2 \<bar>x\<bar> - 52) (- 1074)))"
proof -
  from assms(1) have "0 < \<bar>x\<bar>" by simp
  then have "pow2 (ilog2 \<bar>x\<bar>) \<le> \<bar>x\<bar>" by (rule ilog2_bounds)
  with assms(2) have "(2::rat) powi (ilog2 \<bar>x\<bar>) < 2 powi 1023"
    by (simp add: pow2_powi)
  then have "ilog2 \<bar>x\<bar> < 1023"
    by (rule power_int_le_imp_less_exp [rotated]) simp_all
  with assms(1) show ?thesis
    by (simp add: round_double_def Let_def)
qed

lemma round_double_error:
  assumes "\<bar>x\<bar> < pow2 1023"
  shows "\<exists>y. round_double x = Finite y \<and> \<bar>y - x\<bar> \<le> \<bar>x\<bar> / 2 ^ 53 + 1 / 2 ^ 1075"
proof (cases "x = 0")
  case True
  then show ?thesis by (simp add: round_double_def)
next
  case False
  let ?e = "ilog2 \<bar>x\<bar>"
  let ?q = "max (?e - 52) (- 1074)"
  let ?n = "round_half_even (x / pow2 ?q)"
  from False assms have rd: "round_double x = Finite (of_int ?n * pow2 ?q)"
    by (rule round_double_finite)
  have qpos: "0 < pow2 ?q" by (simp add: pow2_powi)
  have "\<bar>of_int ?n * pow2 ?q - x\<bar> = \<bar>of_int ?n - x / pow2 ?q\<bar> * pow2 ?q"
  proof -
    have "of_int ?n * pow2 ?q - x = (of_int ?n - x / pow2 ?q) * pow2 ?q"
      using qpos by (simp add: field_simps)
    then show ?thesis using qpos by (simp add: abs_mult)
  qed
  also have "\<dots> \<le> (1 / 2) * pow2 ?q"
    using round_half_even_error [of "x / pow2 ?q"] qpos
    by (intro mult_right_mono) simp_all
  also have "\<dots> \<le> \<bar>x\<bar> / 2 ^ 53 + 1 / 2 ^ 1075"
  proof (cases "- 1074 \<le> ?e - 52")
    case True
    then have q: "?q = ?e - 52" by simp
    from False have "0 < \<bar>x\<bar>" by simp
    then have "pow2 ?e \<le> \<bar>x\<bar>" by (rule ilog2_bounds)
    moreover have "(1 / 2) * pow2 (?e - 52) = pow2 ?e / 2 ^ 53"
      by (simp add: pow2_powi power_int_diff)
    ultimately have "(1 / 2) * pow2 (?e - 52) \<le> \<bar>x\<bar> / 2 ^ 53"
      by (simp add: divide_right_mono)
    then show ?thesis unfolding q by simp
  next
    case False
    then have q: "?q = - 1074" by simp
    have "(1 / 2) * pow2 (- 1074) = 1 / 2 ^ 1075"
      by (simp add: pow2_def)
    then show ?thesis unfolding q by simp
  qed
  finally show ?thesis using rd by simp
qed

lemma round_double_nonneg:
  assumes "0 \<le> x" and "round_double x = Finite y"
  shows "0 \<le> y"
proof (cases "x = 0")
  case True
  with assms show ?thesis by (simp add: round_double_def)
next
  case False
  let ?q = "max (ilog2 \<bar>x\<bar> - 52) (- 1074)"
  have qpos: "0 < pow2 ?q" by (simp add: pow2_powi)
  with assms(1) have "0 \<le> x / pow2 ?q" by simp
  then have "0 \<le> \<lfloor>x / pow2 ?q\<rfloor>" by simp
  then have "0 \<le> round_half_even (x / pow2 ?q)"
    by (simp add: round_half_even_def Let_def)
  with qpos have "0 \<le> of_int (round_half_even (x / pow2 ?q)) * pow2 ?q" by simp
  with assms(2) False show ?thesis
    by (auto simp: round_double_def Let_def split: if_splits)
qed

text \<open>
  The arithmetic of the reconstruction. The numbers are the results of the script's
  operations, each within the rounding error (\<open>2^-53\<close> relative, \<open>N\<close> absolute) of the
  exact result; \<open>c\<close> is the float of \<open>total_vcpus\<close>, \<open>d\<close> the denominator, \<open>s\<close> the
  reconstructed total.
\<close>

lemma denominator_bounds:
  fixes R m c t1 d N :: rat
  assumes N: "0 \<le> N" "N \<le> 1 / 1000"
    and R: "8 \<le> R" "R \<le> 9"
    and m: "0 \<le> m" "m \<le> 1000000000"
    and c: "99 / 100 \<le> c" "c \<le> 1010000"
    and t1: "\<bar>t1 - R * c\<bar> \<le> \<bar>R * c\<bar> / 9007199254740992 + N"
    and d: "\<bar>d - (t1 + m)\<bar> \<le> \<bar>t1 + m\<bar> / 9007199254740992 + N"
  shows "6 \<le> d" and "d \<le> 1100000000"
proof -
  define Rc where "Rc = R * c"
  have Rc: "7 \<le> Rc" "Rc \<le> 9090000"
  proof -
    have "8 * (99 / 100) \<le> R * c"
      using R c by (intro mult_mono) simp_all
    then show "7 \<le> Rc" by (simp add: Rc_def)
    have "R * c \<le> 9 * 1010000"
      using R c by (intro mult_mono) simp_all
    then show "Rc \<le> 9090000" by (simp add: Rc_def)
  qed
  from t1 Rc have t1b: "\<bar>t1 - Rc\<bar> \<le> Rc / 9007199254740992 + N"
    by (simp add: Rc_def)
  define x2 where "x2 = t1 + m"
  have x2lo: "69 / 10 \<le> x2" using t1b Rc N m unfolding x2_def by linarith
  have x2hi: "x2 \<le> 1010000000" using t1b Rc N m unfolding x2_def by linarith
  from d x2lo have db: "\<bar>d - x2\<bar> \<le> x2 / 9007199254740992 + N"
    by (simp add: x2_def)
  show "6 \<le> d" using db x2lo x2hi N by linarith
  show "d \<le> 1100000000" using db x2hi x2lo N by linarith
qed

lemma reconstruction_chain:
  fixes R h m c t1 d pm pc u1 v1 s N :: rat
  assumes N: "0 \<le> N" "N \<le> 1 / 10 ^ 300"
    and R: "8 \<le> R" "R \<le> 9"
    and h: "0 \<le> h" "h \<le> 100000"
    and m: "0 \<le> m" "m \<le> 1000000000"
    and c: "99 / 100 \<le> c" "c \<le> 1010000"
    and t1: "\<bar>t1 - R * c\<bar> \<le> \<bar>R * c\<bar> / 9007199254740992 + N"
    and d: "\<bar>d - (t1 + m)\<bar> \<le> \<bar>t1 + m\<bar> / 9007199254740992 + N"
    and pm: "\<bar>pm - h / d\<bar> \<le> \<bar>h / d\<bar> / 9007199254740992 + N"
    and pm0: "0 \<le> pm"
    and pc: "\<bar>pc - R * pm\<bar> \<le> \<bar>R * pm\<bar> / 9007199254740992 + N"
    and pc0: "0 \<le> pc"
    and u1: "\<bar>u1 - pc * c\<bar> \<le> \<bar>pc * c\<bar> / 9007199254740992 + N"
    and v1: "\<bar>v1 - pm * m\<bar> \<le> \<bar>pm * m\<bar> / 9007199254740992 + N"
    and s: "\<bar>s - (u1 + v1)\<bar> \<le> \<bar>u1 + v1\<bar> / 9007199254740992 + N"
  shows "6 \<le> d" and "\<bar>s - h\<bar> \<le> 2 / 10 ^ 10"
proof -
  have Nsmall: "N \<le> 1 / 1000000000000000000000000000000"
  proof -
    have "(1::rat) / 10 ^ 300 \<le> 1 / 1000000000000000000000000000000" by simp
    with N(2) show ?thesis by linarith
  qed
  define Rc where "Rc = R * c"
  have Rc: "7 \<le> Rc" "Rc \<le> 9090000"
  proof -
    have "8 * (99 / 100) \<le> R * c"
      using R c by (intro mult_mono) simp_all
    then show "7 \<le> Rc" by (simp add: Rc_def)
    have "R * c \<le> 9 * 1010000"
      using R c by (intro mult_mono) simp_all
    then show "Rc \<le> 9090000" by (simp add: Rc_def)
  qed
  from t1 Rc have t1b: "\<bar>t1 - Rc\<bar> \<le> Rc / 9007199254740992 + N"
    by (simp add: Rc_def)
  define x2 where "x2 = t1 + m"
  have t1lo: "69 / 10 \<le> t1"
    using t1b Rc Nsmall by linarith
  have Rc_t1: "Rc \<le> (101 / 100) * t1"
    using t1b Rc Nsmall by linarith
  have x2lo: "69 / 10 \<le> x2" "t1 \<le> x2" "m \<le> x2"
    using t1lo m by (simp_all add: x2_def)
  have x2hi: "x2 \<le> 1010000000"
    using t1b Rc Nsmall m unfolding x2_def by linarith
  from d x2lo have db: "\<bar>d - x2\<bar> \<le> x2 / 9007199254740992 + N"
    by (simp add: x2_def)
  have dlo: "6 \<le> d"
    using db x2lo x2hi Nsmall by linarith
  have x2_d: "x2 \<le> (101 / 100) * d"
    using db x2lo x2hi Nsmall by linarith
  have dhi: "d \<le> 1100000000"
    using db x2lo x2hi Nsmall by linarith
  have Rc_d: "Rc \<le> (103 / 100) * d"
    using Rc_t1 x2lo x2_d by linarith
  show "6 \<le> d" by (rule dlo)
  define hd where "hd = h / d"
  have hd0: "0 \<le> hd" using h dlo by (simp add: hd_def)
  have hdd: "hd * d = h" using dlo by (simp add: hd_def)
  from pm hd0 have pmb: "\<bar>pm - hd\<bar> \<le> hd / 9007199254740992 + N"
    by (simp add: hd_def)
  have hdhi: "hd \<le> 20000"
  proof -
    have "hd * 6 \<le> hd * d" using hd0 dlo by (intro mult_left_mono) simp_all
    with hdd h show ?thesis by linarith
  qed
  have pmhi: "pm \<le> 20001" using pmb hdhi Nsmall by linarith
  define P where "P = pm * d"
  have Nd: "N * d \<le> N * 1100000000"
    using N dhi by (intro mult_left_mono) simp_all
  have Npm: "N * pm \<le> N * 20001"
    using N pmhi by (intro mult_left_mono) simp_all
  have Nc: "N * c \<le> N * 1010000"
    using N c by (intro mult_left_mono) simp_all
  have P0: "0 \<le> P" using pm0 dlo by (simp add: P_def)
  have Phi: "P \<le> h + h / 9007199254740992 + N * 1100000000"
  proof -
    have "pm \<le> hd + hd / 9007199254740992 + N" using pmb by linarith
    then have "pm * d \<le> (hd + hd / 9007199254740992 + N) * d"
      using dlo by (intro mult_right_mono) simp_all
    also have "\<dots> = hd * d + (hd * d) / 9007199254740992 + N * d"
      by (simp add: algebra_simps)
    finally show ?thesis using Nd by (simp add: hdd P_def)
  qed
  have P100: "P \<le> 100001" using Phi h Nsmall by linarith
  \<comment> \<open>the seven rounding errors\<close>
  define e1 where "e1 = t1 - Rc"
  define e2 where "e2 = d - x2"
  define e3 where "e3 = pm - hd"
  define e4 where "e4 = pc - R * pm"
  define e5 where "e5 = u1 - pc * c"
  define e6 where "e6 = v1 - pm * m"
  define e7 where "e7 = s - (u1 + v1)"
  have ident: "s - h = e3 * d - pm * (e1 + e2) + e4 * c + e5 + e6 + e7"
  proof -
    have "e3 * d = pm * d - h" by (simp add: e3_def left_diff_distrib hdd)
    moreover have "pm * (e1 + e2) = pm * d - pm * (R * c) - pm * m"
      by (simp add: e1_def e2_def x2_def Rc_def algebra_simps)
    moreover have "e4 * c = pc * c - pm * (R * c)"
      by (simp add: e4_def algebra_simps)
    ultimately show ?thesis
      by (simp add: e5_def e6_def e7_def)
  qed
  \<comment> \<open>products that are about \<open>h\<close>\<close>
  have RcP: "Rc * pm \<le> (103 / 100) * P"
  proof -
    have "Rc * pm \<le> ((103 / 100) * d) * pm"
      using Rc_d pm0 by (intro mult_right_mono) simp_all
    then show ?thesis by (simp add: P_def algebra_simps)
  qed
  have Rcpm0: "0 \<le> Rc * pm" using Rc pm0 by simp
  have mP: "pm * m \<le> (101 / 100) * P"
  proof -
    have "pm * m \<le> pm * ((101 / 100) * d)"
      using x2lo x2_d pm0 by (intro mult_left_mono) linarith+
    then show ?thesis by (simp add: P_def algebra_simps)
  qed
  have pmm0: "0 \<le> pm * m" using pm0 m by simp
  have Rpm0: "0 \<le> R * pm" using R pm0 by simp
  have b3: "\<bar>e3 * d\<bar> \<le> h / 9007199254740992 + N * 1100000000"
  proof -
    have "\<bar>e3 * d\<bar> = \<bar>e3\<bar> * d" using dlo by (simp add: abs_mult)
    also have "\<dots> \<le> (hd / 9007199254740992 + N) * d"
      using pmb dlo by (intro mult_right_mono) (simp_all add: e3_def)
    also have "\<dots> = (hd * d) / 9007199254740992 + N * d"
      by (simp add: algebra_simps)
    finally show ?thesis using Nd by (simp add: hdd)
  qed
  have b12: "\<bar>pm * (e1 + e2)\<bar> \<le> (204 / 100) * P / 9007199254740992 + N * 40002"
  proof -
    have "\<bar>e1 + e2\<bar> \<le> (204 / 100) * d / 9007199254740992 + 2 * N"
      using t1b db Rc_d x2_d unfolding e1_def e2_def by linarith
    then have "pm * \<bar>e1 + e2\<bar> \<le> pm * ((204 / 100) * d / 9007199254740992 + 2 * N)"
      using pm0 by (intro mult_left_mono) simp_all
    also have "\<dots> = (204 / 100) * (pm * d) / 9007199254740992 + 2 * (N * pm)"
      by (simp add: algebra_simps)
    finally show ?thesis using Npm pm0 by (simp add: abs_mult P_def)
  qed
  have b4: "\<bar>e4 * c\<bar> \<le> (103 / 100) * P / 9007199254740992 + N * 1010000"
  proof -
    have c0: "0 \<le> c" using c by linarith
    have "\<bar>e4 * c\<bar> = \<bar>e4\<bar> * c" using c0 by (simp add: abs_mult)
    also have "\<dots> \<le> (R * pm / 9007199254740992 + N) * c"
      using pc Rpm0 c0 by (intro mult_right_mono) (simp_all add: e4_def)
    also have "\<dots> = (Rc * pm) / 9007199254740992 + N * c"
      by (simp add: algebra_simps Rc_def)
    finally show ?thesis using Nc RcP by linarith
  qed
  have c0: "0 \<le> c" using c by linarith
  have Psmall: "P / 9007199254740992 \<le> P / 1000"
    using P0 by (simp add: divide_left_mono)
  have pcc0: "0 \<le> pc * c" using pc0 c0 by simp
  have pcc: "pc * c \<le> (104 / 100) * P + N * 1010000"
  proof -
    have "pc * c = R * pm * c + e4 * c" by (simp add: e4_def algebra_simps)
    then have eq: "pc * c = Rc * pm + e4 * c" by (simp add: Rc_def algebra_simps)
    with b4 RcP Psmall show ?thesis by linarith
  qed
  have b5: "\<bar>e5\<bar> \<le> (104 / 100) * P / 9007199254740992 + N * 2"
    using u1 pcc0 pcc N(1) unfolding e5_def by linarith
  have b6: "\<bar>e6\<bar> \<le> (101 / 100) * P / 9007199254740992 + N"
    using v1 pmm0 mP unfolding e6_def by linarith
  have uv: "\<bar>u1 + v1\<bar> \<le> (206 / 100) * P + N * 1010004"
    using b5 b6 pcc pcc0 mP pmm0 Psmall N(1) unfolding e5_def e6_def by linarith
  have b7: "\<bar>e7\<bar> \<le> (206 / 100) * P / 9007199254740992 + N * 2"
  proof -
    have "\<bar>u1 + v1\<bar> / 9007199254740992 \<le> ((206 / 100) * P + N * 1010004) / 9007199254740992"
      using uv by (simp add: divide_right_mono)
    also have "\<dots> = (206 / 100) * P / 9007199254740992 + N * (1010004 / 9007199254740992)"
      by (simp add: add_divide_distrib)
    finally have "\<bar>u1 + v1\<bar> / 9007199254740992
        \<le> (206 / 100) * P / 9007199254740992 + N * (1010004 / 9007199254740992)" .
    moreover have "N * (1010004 / 9007199254740992) \<le> N * 1"
      using N(1) by (intro mult_left_mono) simp_all
    ultimately show ?thesis
      using s unfolding e7_def by linarith
  qed
  have total: "\<bar>s - h\<bar> \<le> h / 9007199254740992 + (718 / 100) * P / 9007199254740992
                  + N * 1101050009"
  proof -
    define A where "A = e3 * d"
    define B where "B = pm * (e1 + e2)"
    define D where "D = e4 * c"
    have "s - h = A - B + D + e5 + e6 + e7"
      by (simp add: ident A_def B_def D_def)
    then show ?thesis
      using b3 b12 b4 b5 b6 b7 N(1) unfolding A_def [symmetric] B_def [symmetric] D_def [symmetric]
      by linarith
  qed
  have "(2::rat) / 10 ^ 10 = 2 / 10000000000" by simp
  then show "\<bar>s - h\<bar> \<le> 2 / 10 ^ 10"
    using total P100 P0 h Nsmall by linarith
qed

text \<open>Rounding a number of moderate size: the result is finite and close.\<close>

lemma round_double_near:
  assumes "\<bar>x\<bar> \<le> 10 ^ 20"
  obtains y where "round_double x = Finite y"
    and "\<bar>y - x\<bar> \<le> \<bar>x\<bar> / 9007199254740992 + 1 / 2 ^ 1075"
    and "\<bar>y\<bar> \<le> 2 * \<bar>x\<bar> + 1"
    and "0 \<le> x \<longrightarrow> 0 \<le> y"
proof -
  have "(10::rat) ^ 20 < pow2 1023" by (simp add: pow2_def)
  with assms have "\<bar>x\<bar> < pow2 1023" by linarith
  then obtain y where y: "round_double x = Finite y"
    and err: "\<bar>y - x\<bar> \<le> \<bar>x\<bar> / 2 ^ 53 + 1 / 2 ^ 1075"
    using round_double_error by blast
  define N :: rat where "N = 1 / 2 ^ 1075"
  have small: "N \<le> 1" by (simp add: N_def)
  from err have err': "\<bar>y - x\<bar> \<le> \<bar>x\<bar> / 9007199254740992 + N" by (simp add: N_def)
  then have "\<bar>y\<bar> \<le> 2 * \<bar>x\<bar> + 1" using small by linarith
  moreover from err' have "\<bar>y - x\<bar> \<le> \<bar>x\<bar> / 9007199254740992 + 1 / 2 ^ 1075"
    by (simp add: N_def)
  moreover have "0 \<le> x \<longrightarrow> 0 \<le> y" using round_double_nonneg [OF _ y] by blast
  ultimately show ?thesis using y that by blast
qed

lemma abs_mult_bound: "\<bar>a\<bar> \<le> A \<Longrightarrow> \<bar>b\<bar> \<le> B \<Longrightarrow> \<bar>a * b\<bar> \<le> A * (B::rat)"
  by (simp add: abs_mult mult_mono)

text \<open>
  For a fleet of ordinary size (at most 100000 an hour, a million cores, a billion GB) the
  seven roundings move the reconstruction by less than \<open>2 * 10^-10\<close>: the assertion holds
  and the derivation returns rates.
\<close>

lemma derive_rates_succeeds:
  assumes H: "total_hourly t = Finite h" and h: "0 \<le> h" "h \<le> 100000"
    and M: "total_ram_gb t = Finite m" and m: "0 \<le> m" "m \<le> 1000000000"
    and C: "1 \<le> total_vcpus t" "total_vcpus t \<le> 1000000"
  shows "\<exists>rates. derive_rates t = Inr rates"
proof -
  define R :: rat where "R = 4953330595746181 / 562949953421312"
  define N :: rat where "N = 1 / 2 ^ 1075"
  define tol :: rat where "tol = 4835703278458517 / 4835703278458516698824704"
  have R: "8 \<le> R" "R \<le> 9" by (simp_all add: R_def)
  have N: "0 \<le> N" "N \<le> 1 / 10 ^ 300" by (simp_all add: N_def)
  have N1: "N \<le> 1 / 1000" by (simp add: N_def)
  have ratio: "CPU_MEMORY_RATIO = Finite R" by (simp add: CPU_MEMORY_RATIO_value R_def)
  \<comment> \<open>the float of \<open>total_vcpus\<close>\<close>
  define x0 :: rat where "x0 = of_int (total_vcpus t)"
  have x0: "1 \<le> x0" "x0 \<le> 1000000"
    using C by (simp_all add: x0_def)
  then have "\<bar>x0\<bar> \<le> 10 ^ 20" by simp
  then obtain c where c: "round_double x0 = Finite c"
    and cerr: "\<bar>c - x0\<bar> \<le> \<bar>x0\<bar> / 9007199254740992 + N"
    unfolding N_def by (rule round_double_near)
  have cf: "float_of_int (total_vcpus t) = Inr (Finite c)"
    using c by (simp add: float_of_int_def x0_def)
  have cb1: "99 / 100 \<le> c" using cerr x0 N1 by linarith
  have cb2: "c \<le> 1010000" using cerr x0 N1 by linarith
  note cb = cb1 cb2
  \<comment> \<open>\<open>CPU_MEMORY_RATIO * total_vcpus\<close>\<close>
  have Rc: "\<bar>R * c\<bar> \<le> 9 * 1010000"
    using R cb by (intro abs_mult_bound) simp_all
  then have "\<bar>R * c\<bar> \<le> 10 ^ 20" by simp
  then obtain t1 where t1: "round_double (R * c) = Finite t1"
    and t1err: "\<bar>t1 - R * c\<bar> \<le> \<bar>R * c\<bar> / 9007199254740992 + N"
    and t1abs: "\<bar>t1\<bar> \<le> 2 * \<bar>R * c\<bar> + 1"
    unfolding N_def by (rule round_double_near)
  \<comment> \<open>the denominator\<close>
  have "\<bar>t1 + m\<bar> \<le> 10 ^ 20" using t1abs Rc m by simp
  then obtain d where d: "round_double (t1 + m) = Finite d"
    and derr: "\<bar>d - (t1 + m)\<bar> \<le> \<bar>t1 + m\<bar> / 9007199254740992 + N"
    unfolding N_def by (rule round_double_near)
  have dlo: "6 \<le> d" and dhi: "d \<le> 1100000000"
    using denominator_bounds [OF N(1) N1 R m cb t1err derr] by simp_all
  \<comment> \<open>\<open>per_memory\<close>\<close>
  have hd0: "0 \<le> h / d" using h dlo by simp
  have hdhi: "h / d \<le> 20000"
  proof -
    have "h / d \<le> h / 6" using h dlo by (intro divide_left_mono) simp_all
    moreover have "h / 6 \<le> 20000" using h by simp
    ultimately show ?thesis by linarith
  qed
  from hd0 hdhi have "\<bar>h / d\<bar> \<le> 10 ^ 20" by simp
  then obtain pm where pm: "round_double (h / d) = Finite pm"
    and pmerr: "\<bar>pm - h / d\<bar> \<le> \<bar>h / d\<bar> / 9007199254740992 + N"
    and pmabs: "\<bar>pm\<bar> \<le> 2 * \<bar>h / d\<bar> + 1"
    and pm0': "0 \<le> h / d \<longrightarrow> 0 \<le> pm"
    unfolding N_def by (rule round_double_near)
  from pm0' hd0 have pm0: "0 \<le> pm" by simp
  from pmabs hd0 hdhi have pmhi: "\<bar>pm\<bar> \<le> 40001" by simp
  \<comment> \<open>\<open>per_cpu\<close>\<close>
  have Rpm: "\<bar>R * pm\<bar> \<le> 9 * 40001"
    using R pmhi by (intro abs_mult_bound) simp_all
  then have "\<bar>R * pm\<bar> \<le> 10 ^ 20" by simp
  then obtain pc where pc: "round_double (R * pm) = Finite pc"
    and pcerr: "\<bar>pc - R * pm\<bar> \<le> \<bar>R * pm\<bar> / 9007199254740992 + N"
    and pcabs: "\<bar>pc\<bar> \<le> 2 * \<bar>R * pm\<bar> + 1"
    and pc0': "0 \<le> R * pm \<longrightarrow> 0 \<le> pc"
    unfolding N_def by (rule round_double_near)
  from pc0' R pm0 have pc0: "0 \<le> pc" by simp
  from pcabs Rpm have pchi: "\<bar>pc\<bar> \<le> 1000000" by simp
  \<comment> \<open>the reconstruction\<close>
  have "\<bar>pc * c\<bar> \<le> 1000000 * 1010000"
    using pchi cb by (intro abs_mult_bound) simp_all
  then have pcc: "\<bar>pc * c\<bar> \<le> 10 ^ 13" by simp
  then have "\<bar>pc * c\<bar> \<le> 10 ^ 20" by simp
  then obtain u1 where u1: "round_double (pc * c) = Finite u1"
    and u1err: "\<bar>u1 - pc * c\<bar> \<le> \<bar>pc * c\<bar> / 9007199254740992 + N"
    and u1abs: "\<bar>u1\<bar> \<le> 2 * \<bar>pc * c\<bar> + 1"
    unfolding N_def by (rule round_double_near)
  have "\<bar>pm * m\<bar> \<le> 40001 * 1000000000"
    using pmhi m by (intro abs_mult_bound) simp_all
  then have pmm: "\<bar>pm * m\<bar> \<le> 10 ^ 14" by simp
  then have "\<bar>pm * m\<bar> \<le> 10 ^ 20" by simp
  then obtain v1 where v1: "round_double (pm * m) = Finite v1"
    and v1err: "\<bar>v1 - pm * m\<bar> \<le> \<bar>pm * m\<bar> / 9007199254740992 + N"
    and v1abs: "\<bar>v1\<bar> \<le> 2 * \<bar>pm * m\<bar> + 1"
    unfolding N_def by (rule round_double_near)
  have "\<bar>u1 + v1\<bar> \<le> 10 ^ 20" using u1abs v1abs pcc pmm by simp
  then obtain s where s: "round_double (u1 + v1) = Finite s"
    and serr: "\<bar>s - (u1 + v1)\<bar> \<le> \<bar>u1 + v1\<bar> / 9007199254740992 + N"
    unfolding N_def by (rule round_double_near)
  have close: "\<bar>s - h\<bar> \<le> 2 / 10 ^ 10"
    by (rule reconstruction_chain(2) [OF N R h m cb t1err derr pmerr pm0 pcerr pc0 u1err v1err serr])
  then have "\<bar>s - h\<bar> \<le> 10 ^ 20" by simp
  then obtain g where g: "round_double (s - h) = Finite g"
    and gerr: "\<bar>g - (s - h)\<bar> \<le> \<bar>s - h\<bar> / 9007199254740992 + N"
    unfolding N_def by (rule round_double_near)
  have gsmall: "\<bar>g\<bar> < tol"
  proof -
    define aw where "aw = \<bar>s - h\<bar>"
    define ag where "ag = \<bar>g - (s - h)\<bar>"
    have "(2::rat) / 10 ^ 10 = 2 / 10000000000" by simp
    with close have 1: "aw \<le> 2 / 10000000000" by (simp add: aw_def)
    have 2: "(3::rat) / 10000000000 < tol" by (simp add: tol_def)
    have 3: "N \<le> 1 / 100000000000" by (simp add: N_def)
    have 4: "aw / 9007199254740992 \<le> aw" by (simp add: divide_le_eq aw_def)
    from gerr have 5: "ag \<le> aw / 9007199254740992 + N" by (simp add: aw_def ag_def)
    have "\<bar>g\<bar> = \<bar>(g - (s - h)) + (s - h)\<bar>" by simp
    also have "\<dots> \<le> ag + aw" unfolding ag_def aw_def by (rule abs_triangle_ineq)
    finally show ?thesis using 1 2 3 4 5 by linarith
  qed
  \<comment> \<open>the script's steps\<close>
  have 2: "fadd (fmul CPU_MEMORY_RATIO (Finite c)) (total_ram_gb t) = Finite d"
    by (simp add: ratio M t1 d)
  have 3: "Finite d \<noteq> Finite 0" using dlo by simp
  have 4: "fquot (total_hourly t) (Finite d) = Finite pm"
    by (simp add: H pm)
  have 5: "fmul CPU_MEMORY_RATIO (Finite pm) = Finite pc"
    by (simp add: ratio pc)
  have 6: "reconstruction_error (Finite pc) (Finite pm) (Finite c) (total_ram_gb t) (total_hourly t)
             = Finite \<bar>g\<bar>"
    by (simp add: reconstruction_error_def fsub_def M H u1 v1 s g)
  have "flt (Finite \<bar>g\<bar>) tolerance"
    using gsmall by (simp add: tolerance_value tol_def)
  with derive_rates_steps [OF cf 2 3 4 5 6] show ?thesis by simp
qed

section \<open>The rate derivation\<close>

lemma derive_rates_cases:
  "derive_rates t =
     (case float_of_int (total_vcpus t) of
        Inl e \<Rightarrow> Inl e
      | Inr c \<Rightarrow>
          (let d = fadd (fmul CPU_MEMORY_RATIO c) (total_ram_gb t)
           in if d = Finite 0 then Inl ZeroDivisionError
              else if flt (reconstruction_error (fmul CPU_MEMORY_RATIO (fquot (total_hourly t) d))
                             (fquot (total_hourly t) d) c (total_ram_gb t) (total_hourly t))
                          tolerance
              then Inr \<lparr>per_cpu_core = fmul CPU_MEMORY_RATIO (fquot (total_hourly t) d),
                        per_memory_gb = fquot (total_hourly t) d\<rparr>
              else Inl AssertionError))"
  by (simp add: derive_rates_def truediv_def Let_def split: sum.splits)

lemma float_of_int_error: "float_of_int i = Inl e \<Longrightarrow> e = OverflowError"
  by (simp add: float_of_int_def split: pyfloat.splits)

text \<open>
  C1. For totals with \<open>total_vcpus > 0\<close> the derivation is to produce rates whose
  reconstruction \<open>|per_cpu * total_vcpus + per_memory * total_ram_gb - total_hourly|\<close> is
  below \<open>1e-9\<close>, and the script asserts it. It does not for every such totals: a
  catalogue with one server type at 10000000 an hour and one server of that type, with 8
  cores and 64 GB, gives the totals 10000000.0, 8, 64.0; the derivation forms the quotient
  and the product, the float reconstruction is \<open>2^-29\<close> away from \<open>total_hourly\<close>,
  which is not below \<open>1e-9\<close>, the assertion fails, and the run ends there with
  \<open>AssertionError\<close> and nothing sent to Coroot.
\<close>

theorem reconstruction_assertion_fails:
  "fetch large_hetzner = Inr (price_lookup large_pricing, [big])
   \<and> aggregate (price_lookup large_pricing) [big] = Inr large_fleet
   \<and> total_hourly large_fleet = Finite 10000000 \<and> total_vcpus large_fleet = 8
   \<and> total_ram_gb large_fleet = Finite 64
   \<and> float_of_int (total_vcpus large_fleet) = Inr (Finite 8)
   \<and> fquot (total_hourly large_fleet)
        (fadd (fmul CPU_MEMORY_RATIO (Finite 8)) (total_ram_gb large_fleet))
       = Finite (5113396381669439 / 68719476736)
   \<and> fmul CPU_MEMORY_RATIO (Finite (5113396381669439 / 68719476736))
       = Finite (5624021858330563 / 8589934592)
   \<and> reconstruction_error (Finite (5624021858330563 / 8589934592))
        (Finite (5113396381669439 / 68719476736)) (Finite 8)
        (total_ram_gb large_fleet) (total_hourly large_fleet) = Finite (1 / 536870912)
   \<and> \<not> flt (Finite (1 / 536870912)) tolerance
   \<and> derive_rates large_fleet = Inl AssertionError
   \<and> compute_rates large_hetzner = Inl AssertionError
   \<and> main example_config large_hetzner coroot_listing = ([], Inl AssertionError)"
proof -
  have f: "fetch large_hetzner = Inr (price_lookup large_pricing, [big])"
    by (simp add: fetch_def large_hetzner_def)
  have a: "aggregate (price_lookup large_pricing) [big] = Inr large_fleet"
    by code_simp
  have t: "total_hourly large_fleet = Finite 10000000" "total_vcpus large_fleet = 8"
    "total_ram_gb large_fleet = Finite 64"
    by (simp_all add: large_fleet_def)
  have c: "float_of_int (total_vcpus large_fleet) = Inr (Finite 8)"
    by code_simp
  have d: "fadd (fmul CPU_MEMORY_RATIO (Finite 8)) (total_ram_gb large_fleet)
             = Finite (2364232555779169 / 17592186044416)"
    by code_simp
  have pm: "fquot (total_hourly large_fleet) (Finite (2364232555779169 / 17592186044416))
             = Finite (5113396381669439 / 68719476736)"
    by code_simp
  have pc: "fmul CPU_MEMORY_RATIO (Finite (5113396381669439 / 68719476736))
             = Finite (5624021858330563 / 8589934592)"
    by code_simp
  have err: "reconstruction_error (Finite (5624021858330563 / 8589934592))
             (Finite (5113396381669439 / 68719476736)) (Finite 8)
             (total_ram_gb large_fleet) (total_hourly large_fleet) = Finite (1 / 536870912)"
    by code_simp
  have tol: "\<not> flt (Finite (1 / 536870912)) tolerance"
    by code_simp
  have r: "derive_rates large_fleet = Inl AssertionError"
    by (rule derive_rates_large_fleet)
  have cr: "compute_rates large_hetzner = Inl AssertionError"
    by (simp add: compute_rates_def f a r)
  have m: "main example_config large_hetzner coroot_listing = ([], Inl AssertionError)"
    by (simp add: main_def cr)
  from d pm have pm': "fquot (total_hourly large_fleet)
        (fadd (fmul CPU_MEMORY_RATIO (Finite 8)) (total_ram_gb large_fleet))
       = Finite (5113396381669439 / 68719476736)"
    by simp
  from f a t c pm' pc err tol r cr m show ?thesis by simp
qed

text \<open>
  C5. The derivation returns rates exactly when they are the closed-form solution, computed
  as the script writes it, and pass the assertion: \<open>per_memory = total_hourly /
  (CPU_MEMORY_RATIO * total_vcpus + total_ram_gb)\<close> with a divisor that is not zero, and
  \<open>per_cpu = CPU_MEMORY_RATIO * per_memory\<close>, every operation a float operation. This holds
  for all totals, so for those with \<open>total_vcpus > 0\<close>.
\<close>

theorem derive_rates_closed_form:
  "derive_rates t = Inr rates \<longleftrightarrow>
     (\<exists>c. float_of_int (total_vcpus t) = Inr c
        \<and> fadd (fmul CPU_MEMORY_RATIO c) (total_ram_gb t) \<noteq> Finite 0
        \<and> per_memory_gb rates =
            fquot (total_hourly t) (fadd (fmul CPU_MEMORY_RATIO c) (total_ram_gb t))
        \<and> per_cpu_core rates = fmul CPU_MEMORY_RATIO (per_memory_gb rates)
        \<and> flt (reconstruction_error (per_cpu_core rates) (per_memory_gb rates) c
                 (total_ram_gb t) (total_hourly t)) tolerance)"
proof (cases "float_of_int (total_vcpus t)")
  case (Inl e)
  then show ?thesis by (simp add: derive_rates_cases)
next
  case (Inr c)
  then show ?thesis
    by (cases rates) (auto simp: derive_rates_cases Let_def)
qed

theorem derive_rates_closed_form_witness:
  "derive_rates scenario = Inr scenario_rates
   \<and> float_of_int (total_vcpus scenario) = Inr (Finite 8)
   \<and> fadd (fmul CPU_MEMORY_RATIO (Finite 8)) (total_ram_gb scenario) \<noteq> Finite 0
   \<and> per_memory_gb scenario_rates =
       fquot (total_hourly scenario) (fadd (fmul CPU_MEMORY_RATIO (Finite 8)) (total_ram_gb scenario))
   \<and> per_cpu_core scenario_rates = fmul CPU_MEMORY_RATIO (per_memory_gb scenario_rates)
   \<and> flt (reconstruction_error (per_cpu_core scenario_rates) (per_memory_gb scenario_rates)
            (Finite 8) (total_ram_gb scenario) (total_hourly scenario)) tolerance"
proof -
  have c: "float_of_int (total_vcpus scenario) = Inr (Finite 8)" by code_simp
  from derive_rates_closed_form [of scenario scenario_rates] derive_rates_scenario
  obtain c' where c': "float_of_int (total_vcpus scenario) = Inr c'"
    and rest: "fadd (fmul CPU_MEMORY_RATIO c') (total_ram_gb scenario) \<noteq> Finite 0
      \<and> per_memory_gb scenario_rates =
          fquot (total_hourly scenario) (fadd (fmul CPU_MEMORY_RATIO c') (total_ram_gb scenario))
      \<and> per_cpu_core scenario_rates = fmul CPU_MEMORY_RATIO (per_memory_gb scenario_rates)
      \<and> flt (reconstruction_error (per_cpu_core scenario_rates) (per_memory_gb scenario_rates)
               c' (total_ram_gb scenario) (total_hourly scenario)) tolerance"
    by blast
  from c c' have "c' = Finite 8" by simp
  with rest derive_rates_scenario c show ?thesis by blast
qed

text \<open>
  C6 (as amended). On the totals 0.5 EUR/hr, 8 vCPU, 32 GB the script, whose ratio is the
  float quotient 0.03465 / 0.003938 = 8.798882681564246 and not 8.8, derives
  \<open>per_memory_gb = 0.004883238760366652\<close> and \<open>per_cpu_core = 0.042967044958533394\<close>
  (given here as the exact doubles and enclosed between decimals), and the float
  reconstruction \<open>per_cpu * 8 + per_memory * 32\<close> is 0.5.
\<close>

theorem scenario_derivation:
  "derive_rates scenario = Inr scenario_rates
   \<and> fadd (fmul (per_cpu_core scenario_rates) (Finite 8))
           (fmul (per_memory_gb scenario_rates) (Finite 32)) = Finite (1 / 2)
   \<and> flt (Finite (4883238760 / 1000000000000)) (per_memory_gb scenario_rates)
   \<and> flt (per_memory_gb scenario_rates) (Finite (4883238761 / 1000000000000))
   \<and> flt (Finite (42967044958 / 1000000000000)) (per_cpu_core scenario_rates)
   \<and> flt (per_cpu_core scenario_rates) (Finite (42967044959 / 1000000000000))"
proof -
  have "fadd (fmul (per_cpu_core scenario_rates) (Finite 8))
           (fmul (per_memory_gb scenario_rates) (Finite 32)) = Finite (1 / 2)"
    by code_simp
  moreover have "flt (Finite (4883238760 / 1000000000000)) (per_memory_gb scenario_rates)
   \<and> flt (per_memory_gb scenario_rates) (Finite (4883238761 / 1000000000000))
   \<and> flt (Finite (42967044958 / 1000000000000)) (per_cpu_core scenario_rates)
   \<and> flt (per_cpu_core scenario_rates) (Finite (42967044959 / 1000000000000))"
    by (simp add: scenario_rates_def)
  ultimately show ?thesis using derive_rates_scenario by simp
qed

text \<open>
  C6, as stated, fails: the rates derived for the scenario are not 0.04296875 (= 11/256) and
  0.0048828125 (= 5/1024), the values that the ratio 8.8 would give.
\<close>

theorem scenario_derivation_counterexample:
  "derive_rates scenario = Inr scenario_rates
   \<and> per_memory_gb scenario_rates \<noteq> Finite (5 / 1024)
   \<and> per_cpu_core scenario_rates \<noteq> Finite (11 / 256)"
  using derive_rates_scenario by (simp add: scenario_rates_def)

section \<open>Aggregation\<close>

lemma aggregate_loop_append:
  "aggregate_loop table (xs @ ys) t = aggregate_loop table ys (aggregate_loop table xs t)"
  by (induction xs arbitrary: t) (auto split: option.splits)

text \<open>The loop adds up the priced servers, whatever totals it starts from.\<close>

lemma aggregate_loop_folds:
  "aggregate_loop table servers t =
     \<lparr>total_hourly = foldl fadd (total_hourly t) (map (hourly_of table) (priced_servers table servers)),
      total_vcpus = total_vcpus t + sum_list (map srv_cores (priced_servers table servers)),
      total_ram_gb = foldl fadd (total_ram_gb t) (map srv_memory (priced_servers table servers))\<rparr>"
proof (induction servers arbitrary: t)
  case Nil
  show ?case by (simp add: priced_servers_def)
next
  case (Cons s servers)
  show ?case
  proof (cases "find_prices table s")
    case None
    with Cons show ?thesis by (simp add: priced_servers_def)
  next
    case (Some pr)
    with Cons show ?thesis
      by (simp add: priced_servers_def add_server_def hourly_of_def)
  qed
qed

lemma aggregate_loop_all_unpriced:
  "\<forall>s\<in>set servers. find_prices table s = None \<Longrightarrow> aggregate_loop table servers t = t"
  by (induction servers) auto

lemma ghost_unpriced: "find_prices (price_lookup example_pricing) ghost = None"
  by (simp add: find_prices_def price_lookup_def example_pricing_def ghost_def dict_of_def)

lemma example_fetch:
  "fetch example_hetzner = Inr (price_lookup example_pricing, [web, ghost, db])"
  by (simp add: fetch_def example_hetzner_def)

lemma example_aggregate:
  "aggregate (price_lookup example_pricing) [web, ghost, db] = Inr scenario"
  by code_simp

lemma example_compute_rates: "compute_rates example_hetzner = Inr scenario_rates"
  by (simp add: compute_rates_def example_fetch example_aggregate derive_rates_scenario)

text \<open>
  C3. A server whose \<open>(server_type, location)\<close> has no price in the catalogue does not
  affect the totals: with such a server anywhere in the list, the loop (from any totals) and
  the aggregation give what they give for the list without it; and the totals of the loop
  are the sums over the priced servers only: the float sums, left to right from 0.0, of
  their hourly prices and of their memory, and the integer sum of their cores.
\<close>

theorem aggregate_skips_unpriced:
  "(find_prices table s = None \<longrightarrow>
      aggregate_loop table (before @ s # after) t = aggregate_loop table (before @ after) t
      \<and> aggregate table (before @ s # after) = aggregate table (before @ after))
   \<and> aggregate_loop table servers zero_totals =
       \<lparr>total_hourly = float_sum (map (hourly_of table) (priced_servers table servers)),
        total_vcpus = sum_list (map srv_cores (priced_servers table servers)),
        total_ram_gb = float_sum (map srv_memory (priced_servers table servers))\<rparr>"
proof -
  have skip: "aggregate_loop table (before @ s # after) t' = aggregate_loop table (before @ after) t'"
    if "find_prices table s = None" for t'
    using that by (simp add: aggregate_loop_append)
  have sums: "aggregate_loop table servers zero_totals =
       \<lparr>total_hourly = float_sum (map (hourly_of table) (priced_servers table servers)),
        total_vcpus = sum_list (map srv_cores (priced_servers table servers)),
        total_ram_gb = float_sum (map srv_memory (priced_servers table servers))\<rparr>"
    by (subst aggregate_loop_folds) (simp add: zero_totals_def float_sum_def)
  from skip sums show ?thesis by (simp add: aggregate_def)
qed

theorem aggregate_skips_unpriced_witness:
  "find_prices (price_lookup example_pricing) ghost = None
   \<and> aggregate (price_lookup example_pricing) ([web] @ ghost # [db]) = Inr scenario
   \<and> aggregate (price_lookup example_pricing) ([web] @ [db]) = Inr scenario
   \<and> priced_servers (price_lookup example_pricing) [web, ghost, db] = [web, db]"
proof -
  have "aggregate (price_lookup example_pricing) ([web] @ ghost # [db])
          = aggregate (price_lookup example_pricing) ([web] @ [db])"
    using aggregate_skips_unpriced
      [of "price_lookup example_pricing" ghost "[web]" "[db]" zero_totals "[]"]
      ghost_unpriced
    by blast
  moreover have "priced_servers (price_lookup example_pricing) [web, ghost, db] = [web, db]"
    by (simp add: priced_servers_def find_prices_def price_lookup_def example_pricing_def
          ghost_def web_def db_def dict_of_def)
  ultimately show ?thesis
    using ghost_unpriced example_aggregate by simp
qed

text \<open>
  C4. When the list of servers is not empty and no server has a price, the aggregation ends
  the run with the message that no pricing could be resolved (the guard \<open>total_vcpus == 0\<close>): the script
  stops there, with nothing sent to Coroot, and the division of the rate derivation is
  not reached.
\<close>

theorem all_unpriced_exits:
  assumes "pricing_response h = Inr pricing"
    and "servers_response h = Inr servers"
    and "servers \<noteq> []"
    and "\<forall>s\<in>set servers. find_prices (price_lookup pricing) s = None"
  shows "total_vcpus (aggregate_loop (price_lookup pricing) servers zero_totals) = 0
         \<and> aggregate (price_lookup pricing) servers =
             Inl (SystemExit ''error: could not resolve pricing for any active server'')
         \<and> compute_rates h =
             Inl (SystemExit ''error: could not resolve pricing for any active server'')
         \<and> main cfg h srv =
             ([], Inl (SystemExit ''error: could not resolve pricing for any active server''))"
proof -
  from assms(4) have loop: "aggregate_loop (price_lookup pricing) servers zero_totals = zero_totals"
    by (rule aggregate_loop_all_unpriced)
  then have agg: "aggregate (price_lookup pricing) servers =
      Inl (SystemExit ''error: could not resolve pricing for any active server'')"
    by (simp add: aggregate_def zero_totals_def)
  from assms(1-3) have "fetch h = Inr (price_lookup pricing, servers)"
    by (simp add: fetch_def)
  with agg loop show ?thesis
    by (simp add: main_def compute_rates_def zero_totals_def)
qed

theorem all_unpriced_exits_witness:
  "pricing_response unpriced_hetzner = Inr example_pricing
   \<and> servers_response unpriced_hetzner = Inr [ghost]
   \<and> [ghost] \<noteq> []
   \<and> find_prices (price_lookup example_pricing) ghost = None
   \<and> main example_config unpriced_hetzner coroot_listing =
       ([], Inl (SystemExit ''error: could not resolve pricing for any active server''))"
proof -
  have 1: "pricing_response unpriced_hetzner = Inr example_pricing"
    and 2: "servers_response unpriced_hetzner = Inr [ghost]"
    by (simp_all add: unpriced_hetzner_def)
  have 3: "[ghost] \<noteq> []" by simp
  have 4: "\<forall>s\<in>set [ghost]. find_prices (price_lookup example_pricing) s = None"
    by (simp add: ghost_unpriced)
  from all_unpriced_exits [OF 1 2 3 4, of example_config coroot_listing] 1 2 3 ghost_unpriced
  show ?thesis by simp
qed

section \<open>Fetching\<close>

text \<open>
  C8. When the list of active servers that Hetzner returns is empty, the fetch section ends the
  run with the message that no active servers were found: that is the result of \<open>fetch\<close>, so neither the
  aggregation nor anything after it runs, and nothing is sent to Coroot.
\<close>

theorem empty_inventory_exits:
  assumes "pricing_response h = Inr pricing"
    and "servers_response h = Inr []"
  shows "fetch h = Inl (SystemExit ''error: no active servers found in Hetzner account'')
         \<and> main cfg h srv =
             ([], Inl (SystemExit ''error: no active servers found in Hetzner account''))"
  using assms by (simp add: fetch_def main_def compute_rates_def)

theorem empty_inventory_exits_witness:
  "pricing_response empty_hetzner = Inr example_pricing
   \<and> servers_response empty_hetzner = Inr []
   \<and> fetch empty_hetzner = Inl (SystemExit ''error: no active servers found in Hetzner account'')
   \<and> main example_config empty_hetzner coroot_listing =
       ([], Inl (SystemExit ''error: no active servers found in Hetzner account''))"
proof -
  have 1: "pricing_response empty_hetzner = Inr example_pricing"
    and 2: "servers_response empty_hetzner = Inr []"
    by (simp_all add: empty_hetzner_def)
  from empty_inventory_exits [OF 1 2, of example_config coroot_listing] 1 2
  show ?thesis by simp
qed

section \<open>Login\<close>

text \<open>
  C9. When the rates have been derived and Coroot answers the login with an error status
  (401, say), the run ends with the \<open>RuntimeError\<close> that \<open>coroot_request\<close> raises for
  it, and the login is the only request ever sent: no discovery call, no update call.
\<close>

theorem login_failure_aborts:
  assumes "compute_rates h = Inr rates"
    and "srv [] (login_request cfg) = HttpError code text"
  shows "main cfg h srv = ([login_request cfg], Inl (RuntimeError code ''POST'' ApiLogin text))"
  using assms
  by (simp add: main_def push_rates_def authenticate_def coroot_request_def login_request_def)

theorem login_failure_aborts_witness:
  "compute_rates example_hetzner = Inr scenario_rates
   \<and> coroot_login_401 [] (login_request example_config) = HttpError 401 ''Unauthorized''
   \<and> main example_config example_hetzner coroot_login_401 =
       ([login_request example_config], Inl (RuntimeError 401 ''POST'' ApiLogin ''Unauthorized''))"
proof -
  have 1: "coroot_login_401 [] (login_request example_config) = HttpError 401 ''Unauthorized''"
    by (simp add: coroot_login_401_def login_request_def)
  from login_failure_aborts [where srv = coroot_login_401 and cfg = example_config,
      OF example_compute_rates 1] example_compute_rates 1
  show ?thesis by simp
qed

section \<open>Project discovery\<close>





lemma list_projects_sent: "fst (list_projects srv sent) = sent @ [projects_request]"
  by (cases "srv sent projects_request")
     (simp_all add: list_projects_def coroot_request_def projects_request_def)

text \<open>The probe of the one candidate, by the answer it gets.\<close>

lemma probe_default:
  "probe_overview srv sent [''default''] =
     (sent @ [overview_request ''default''],
      case srv sent (overview_request ''default'') of
        HttpError code text \<Rightarrow> Inl discovery_failed
      | NoBody \<Rightarrow> Inl discovery_failed
      | JsonBody j \<Rightarrow> if j \<noteq> JNull then Inr (JStr ''default'') else Inl discovery_failed
      | NestedTooDeep \<Rightarrow> Inl discovery_failed
      | BadBody \<Rightarrow> Inl JSONDecodeError
      | Undecodable \<Rightarrow> Inl UnicodeDecodeError
      | NetError \<Rightarrow> Inl URLError)"
  by (cases "srv sent (overview_request ''default'')")
     (simp_all add: coroot_request_def overview_request_def)

text \<open>When the \<^verbatim>\<open>try\<close> raises, whatever the exception, the probe decides.\<close>

lemma discover_fallback:
  assumes "snd (list_projects srv sent) = Inl e"
  shows "discover_project srv sent = probe_overview srv (sent @ [projects_request]) [''default'']"
proof -
  from assms list_projects_sent [of srv sent]
  have "list_projects srv sent = (sent @ [projects_request], Inl e)"
    by (cases "list_projects srv sent") simp
  then show ?thesis
    by (simp add: discover_project_def del: probe_overview.simps)
qed





text \<open>
  C7 (as amended). During the fallback, that is whenever the attempt on the list has raised,
  the probe of \<open>"default"\<close> makes \<open>"default"\<close> the project exactly when its answer is a
  body that parses to a value other than \<^verbatim>\<open>None\<close>: a success status alone is not
  enough.
\<close>

theorem overview_probe_confirms:
  assumes "snd (list_projects srv sent) = Inl e"
  shows "snd (discover_project srv sent) = Inr (JStr ''default'')
           \<longleftrightarrow> probe_confirms (srv (sent @ [projects_request]) (overview_request ''default''))"
  by (cases "srv (sent @ [projects_request]) (overview_request ''default'')")
     (simp_all add: discover_fallback [OF assms] probe_default discovery_failed_def
        del: probe_overview.simps)

theorem overview_probe_confirms_witness:
  "snd (list_projects coroot_default_only []) = Inl (RuntimeError 404 ''GET'' ApiProjects ''Not Found'')
   \<and> probe_confirms (coroot_default_only ([] @ [projects_request]) (overview_request ''default''))
   \<and> snd (discover_project coroot_default_only []) = Inr (JStr ''default'')
   \<and> snd (list_projects coroot_wrapped_list []) = Inl (ValueError ''empty projects list'')
   \<and> snd (discover_project coroot_wrapped_list []) = Inr (JStr ''default'')
   \<and> snd (list_projects coroot_deep_overview []) = Inl (RuntimeError 404 ''GET'' ApiProjects ''Not Found'')
   \<and> \<not> probe_confirms (coroot_deep_overview ([] @ [projects_request]) (overview_request ''default''))
   \<and> snd (discover_project coroot_deep_overview []) \<noteq> Inr (JStr ''default'')"
proof -
  have 1: "snd (list_projects coroot_default_only [])
             = Inl (RuntimeError 404 ''GET'' ApiProjects ''Not Found'')"
    by (simp add: list_projects_def coroot_request_def coroot_default_only_def)
  have 2: "probe_confirms (coroot_default_only ([] @ [projects_request]) (overview_request ''default''))"
    by (simp add: coroot_default_only_def overview_request_def)
  have 3: "snd (list_projects coroot_wrapped_list []) = Inl (ValueError ''empty projects list'')"
    by (simp add: list_projects_def coroot_request_def coroot_wrapped_list_def select_project_def)
  have 4: "probe_confirms (coroot_wrapped_list ([] @ [projects_request]) (overview_request ''default''))"
    by (simp add: coroot_wrapped_list_def overview_request_def)
  have 5: "snd (list_projects coroot_deep_overview [])
             = Inl (RuntimeError 404 ''GET'' ApiProjects ''Not Found'')"
    by (simp add: list_projects_def coroot_request_def coroot_deep_overview_def)
  have 6: "\<not> probe_confirms (coroot_deep_overview ([] @ [projects_request]) (overview_request ''default''))"
    by (simp add: coroot_deep_overview_def overview_request_def)
  from overview_probe_confirms [OF 1] overview_probe_confirms [OF 3] overview_probe_confirms [OF 5]
    1 2 3 4 5 6
  show ?thesis by simp
qed

text \<open>
  C7, as stated, fails: the list endpoint answers 404, the probe of \<open>"default"\<close> answers
  with a success status and an empty body, and discovery ends the run.
\<close>

theorem overview_probe_confirms_counterexample:
  "coroot_blank_overview [] projects_request = HttpError 404 ''Not Found''
   \<and> coroot_blank_overview [projects_request] (overview_request ''default'') = NoBody
   \<and> discover_project coroot_blank_overview [] =
       ([projects_request, overview_request ''default''], Inl discovery_failed)"
  by (simp add: discover_project_def list_projects_def coroot_request_def
        coroot_blank_overview_def projects_request_def overview_request_def)




section \<open>A complete run\<close>

text \<open>
  The example fleet against a Coroot that lists its projects: the login, the list of
  projects and the update for the first project, \<open>prod\<close>, with the rates of the scenario.
\<close>

lemma example_run:
  "main example_config example_hetzner coroot_listing =
     ([login_request example_config, projects_request,
       \<lparr>req_method = ''POST'', req_path = ApiCustomCloudPricing (JStr ''prod''),
        req_body = Some (pricing_body scenario_rates)\<rparr>],
      Inr ())"
  by (simp add: main_def example_compute_rates push_rates_def authenticate_def
        resolve_project_def example_config_def discover_project_def list_projects_def
        select_project_def update_pricing_def coroot_request_def coroot_listing_def
        login_request_def projects_request_def dict_get_def dict_of_def Let_def)

end
